theory Spec2Isabelle
  imports Main
begin

section \<open>Values of the server\<close>

text \<open>
  The server is a Node.js program. Its handlers are asynchronous functions that run on
  one cooperative event loop: a handler runs without interruption up to its next
  \<^verbatim>\<open>await\<close>, where it is suspended until the awaited promise settles. Each
  asynchronous function is therefore modelled by the piece that runs before the
  \<^verbatim>\<open>await\<close> and the piece that runs after it, and the event loop by a step
  function on the state of the process.
\<close>

text \<open>A JSON value, as passed to \<^verbatim>\<open>res.json\<close> and to \<^verbatim>\<open>mongoose.connect\<close>.\<close>

datatype json = JNull | JBool bool | JNum int | JStr string | JObj "(string \<times> json) list"

text \<open>
  What \<^verbatim>\<open>mongoose.connect\<close> resolves to; the code reads
  \<^verbatim>\<open>conn.connection.host\<close>, \<^verbatim>\<open>.name\<close> and \<^verbatim>\<open>.port\<close> of it.
\<close>

record conn =
  conn_host :: string
  conn_name :: string
  conn_port :: string

text \<open>
  The error a rejected connection attempt carries. \<^verbatim>\<open>error.code\<close> is absent, a
  string (\<^verbatim>\<open>'ENOTFOUND'\<close>) or a number (a server error code).
\<close>

datatype code_value = NoCode | StrCode string | NumCode int

record db_error =
  err_message :: string
  err_code :: code_value
  err_name :: string

type_synonym outcome = "db_error + conn"

text \<open>
  Console output: \<^verbatim>\<open>console.log\<close> and \<^verbatim>\<open>console.error\<close> with their
  arguments. A template literal is kept as its pieces. The pictograph that opens most
  messages of the source is outside ASCII: it is left out, with the blanks that follow
  it.
\<close>

datatype level = Log | Error

datatype arg = Txt string | Num nat | Code code_value | ErrObj db_error

type_synonym log_line = "level \<times> arg list"

text \<open>What a request gets: \<^verbatim>\<open>next()\<close>, or a response with a status and a body.\<close>

datatype reply = Next | Response nat json

text \<open>Who awaits a connection attempt: the middleware for a request, or the startup code.\<close>

datatype caller = Middleware nat | Startup

text \<open>
  The environment of the process: \<^verbatim>\<open>process.env\<close> (a variable that is not set
  is \<^verbatim>\<open>undefined\<close>), \<^verbatim>\<open>require.main === module\<close>, and what
  \<^verbatim>\<open>app.listen(PORT)\<close> does there: it starts to listen (\<open>None\<close>) or throws at
  once, as it does for a port out of range (\<open>Some\<close> of the error thrown).
\<close>

record env =
  MONGODB_URI :: "string option"
  NODE_ENV :: "string option"
  PORT :: "string option"
  is_main :: bool
  listen_throws :: "db_error option"

text \<open>
  The state of the process: the module variable \<^verbatim>\<open>cachedDb\<close>, the fields of the
  database client the code reads and sets (\<^verbatim>\<open>mongoose.connection.readyState\<close>, the
  \<^verbatim>\<open>strictQuery\<close> setting), every call of \<^verbatim>\<open>mongoose.connect\<close> made so far
  with its arguments, the callers suspended on a connection attempt, the requests
  suspended on the connection's \<^verbatim>\<open>connected\<close> and \<^verbatim>\<open>error\<close> events, the
  replies given, the console, whether the server listens, and the exit code once
  \<^verbatim>\<open>process.exit\<close> has been called.
\<close>

record state =
  cachedDb :: "conn option"
  readyState :: nat
  strictQuery :: bool
  connect_calls :: "(string \<times> json) list"
  connectors :: "caller list"
  waiters :: "nat list"
  replies :: "(nat \<times> reply) list"
  console :: "log_line list"
  listening :: bool
  exit_code :: "nat option"

definition init :: state where
  "init = \<lparr>cachedDb = None, readyState = 0, strictQuery = False, connect_calls = [],
     connectors = [], waiters = [], replies = [], console = [], listening = False,
     exit_code = None\<rparr>"

definition say :: "level \<Rightarrow> arg list \<Rightarrow> state \<Rightarrow> state" where
  "say l as s = s\<lparr>console := console s @ [(l, as)]\<rparr>"

definition respond :: "nat \<Rightarrow> reply \<Rightarrow> state \<Rightarrow> state" where
  "respond r x s = s\<lparr>replies := replies s @ [(r, x)]\<rparr>"

text \<open>\<^verbatim>\<open>x || d\<close> on a string that may be undefined: the empty string is falsy too.\<close>

definition truthy :: "string option \<Rightarrow> bool" where
  "truthy x = (case x of None \<Rightarrow> False | Some v \<Rightarrow> v \<noteq> [])"

definition or_else :: "string option \<Rightarrow> string \<Rightarrow> string" where
  "or_else x d = (case x of None \<Rightarrow> d | Some v \<Rightarrow> if v = [] then d else v)"

section \<open>The database client\<close>

text \<open>
  Modelled from the spec: the database client library (mongoose) is an external
  collaborator and not part of the sources. \<open>mongoose_connect\<close> is the call
  \<^verbatim>\<open>mongoose.connect(uri, options)\<close> up to the promise it returns. The spec
  gives the lifecycle of the client as seen through the readiness integer: from
  Disconnected or Failed (0) a connection attempt moves to Connecting (2).
\<close>

definition mongoose_connect :: "string \<Rightarrow> json \<Rightarrow> state \<Rightarrow> state" where
  "mongoose_connect uri options s =
     s\<lparr>connect_calls := connect_calls s @ [(uri, options)], readyState := 2\<rparr>"

text \<open>
  Modelled from the spec: what the client does to the readiness integer when the
  attempt settles, which is not part of the sources either. The attempt ends in
  Connected (1) on success and in Failed, the readiness integer 0, on error.
\<close>

definition mongoose_settle :: "outcome \<Rightarrow> state \<Rightarrow> state" where
  "mongoose_settle out s =
     (case out of Inr c \<Rightarrow> s\<lparr>readyState := 1\<rparr> | Inl e \<Rightarrow> s\<lparr>readyState := 0\<rparr>)"

section \<open>connectDB\<close>

definition fallback_uri :: string where
  "fallback_uri = ''mongodb://localhost:27017/campus_recruitment''"

definition connectDB_options :: json where
  "connectDB_options = JObj
     [(''useNewUrlParser'', JBool True),
      (''useUnifiedTopology'', JBool True),
      (''bufferCommands'', JBool False),
      (''serverSelectionTimeoutMS'', JNum 5000),
      (''socketTimeoutMS'', JNum 45000),
      (''connectTimeoutMS'', JNum 10000)]"

text \<open>
  \<open>connectDB_begin\<close> is \<^verbatim>\<open>connectDB\<close> up to
  \<^verbatim>\<open>await mongoose.connect(...)\<close>: it returns the cached handle at once
  (\<open>Some\<close>) or leaves the caller suspended on a new attempt (\<open>None\<close>).
\<close>

definition connectDB_attempt :: "env \<Rightarrow> state \<Rightarrow> state" where
  "connectDB_attempt ev s =
     (let s1 = say Log [Txt ''[connectDB] Starting NEW database connection...''] s;
          s2 = say Log [Txt ''   Environment:'', Txt (or_else (NODE_ENV ev) ''undefined'')] s1;
          s3 = say Log [Txt ''   MONGODB_URI:'',
                 Txt (if truthy (MONGODB_URI ev) then ''Set (hidden for security)''
                      else ''NOT SET'')] s2;
          s4 = say Log [Txt ''   Fallback URI:'', Txt fallback_uri] s3;
          uri = or_else (MONGODB_URI ev) fallback_uri;
          s5 = say Log [Txt ''   Using URI:'',
                 Txt (if Some uri = MONGODB_URI ev then ''MONGODB_URI from env''
                      else ''Fallback localhost'')] s4;
          s6 = s5\<lparr>strictQuery := True\<rparr>
      in mongoose_connect uri connectDB_options s6)"

definition connectDB_begin :: "env \<Rightarrow> state \<Rightarrow> conn option \<times> state" where
  "connectDB_begin ev s =
     (case cachedDb s of
        Some c \<Rightarrow>
          if readyState s = 1
          then (Some c, say Log [Txt ''[connectDB] Using existing database connection.''] s)
          else (None, connectDB_attempt ev s)
      | None \<Rightarrow> (None, connectDB_attempt ev s))"

text \<open>The chain of tests on the error in the \<^verbatim>\<open>catch\<close> block of \<^verbatim>\<open>connectDB\<close>.\<close>

definition connectDB_hint :: "db_error \<Rightarrow> state \<Rightarrow> state" where
  "connectDB_hint e s =
     (if err_code e = StrCode ''ENOTFOUND''
      then say Error [Txt ''   DNS resolution failed - check your MongoDB URI''] s
      else if err_code e = StrCode ''ECONNREFUSED''
      then say Error
             [Txt ''   Connection refused - check if MongoDB is running and port is open''] s
      else if err_name e = ''MongoServerError''
      then say Error
             [Txt ''   MongoDB server error - check credentials and network access''] s
      else if err_name e = ''MongooseServerSelectionError''
      then say Error
             [Txt ''   Mongoose server selection error - check network access or URI''] s
      else s)"

text \<open>
  \<open>connectDB_finish\<close> is \<^verbatim>\<open>connectDB\<close> from the point where the awaited attempt
  has settled: the rest of the \<^verbatim>\<open>try\<close> block on success, the \<^verbatim>\<open>catch\<close>
  block, which throws the error again, on failure.
\<close>

definition connectDB_finish :: "outcome \<Rightarrow> state \<Rightarrow> outcome \<times> state" where
  "connectDB_finish out s =
     (case out of
        Inr c \<Rightarrow>
          (let s1 = s\<lparr>cachedDb := Some c\<rparr>;
               s2 = say Log [Txt ''[connectDB] MongoDB Connected Successfully!''] s1;
               s3 = say Log [Txt ''   Host: '', Txt (conn_host c)] s2;
               s4 = say Log [Txt ''   Database: '', Txt (conn_name c)] s3;
               s5 = say Log [Txt ''   Port: '', Txt (conn_port c)] s4;
               s6 = say Log [Txt ''   Ready State: '', Num (readyState s5)] s5
           in (Inr c, s6))
      | Inl e \<Rightarrow>
          (let s1 = say Error [Txt ''[connectDB] Database connection failed:''] s;
               s2 = say Error [Txt ''   Error:'', Txt (err_message e)] s1;
               s3 = say Error [Txt ''   Code:'', Code (err_code e)] s2;
               s4 = say Error [Txt ''   Name:'', Txt (err_name e)] s3;
               s5 = connectDB_hint e s4;
               s6 = s5\<lparr>cachedDb := None\<rparr>;
               s7 = say Error
                      [Txt ''   Server will start but database operations will fail''] s6
           in (Inl e, s7)))"

section \<open>The ensureDbConnected middleware\<close>

text \<open>
  \<open>ensureDbConnected_begin\<close> is the middleware up to its \<^verbatim>\<open>await\<close>: with the
  readiness integer at 1 it calls \<^verbatim>\<open>next()\<close>; at 2 it registers listeners for
  the connection's \<^verbatim>\<open>connected\<close> and \<^verbatim>\<open>error\<close> events and is suspended on
  them; otherwise it calls \<^verbatim>\<open>connectDB\<close> and is suspended on it.
\<close>

definition ensureDbConnected_begin :: "env \<Rightarrow> nat \<Rightarrow> state \<Rightarrow> state" where
  "ensureDbConnected_begin ev r s =
     (if readyState s = 1
      then respond r Next
             (say Log [Txt ''[ensureDbConnected] Database already connected.''] s)
      else if readyState s = 2
      then (let s1 = say Log [Txt ''[ensureDbConnected] Database is connecting...''] s
            in s1\<lparr>waiters := waiters s1 @ [r]\<rparr>)
      else (let s1 = say Log
                       [Txt ''[ensureDbConnected] Establishing new database connection...''] s
            in case connectDB_begin ev s1 of
                 (Some c, s2) \<Rightarrow>
                   respond r Next
                     (say Log [Txt ''[ensureDbConnected] Database connected successfully.''] s2)
               | (None, s2) \<Rightarrow> s2\<lparr>connectors := connectors s2 @ [Middleware r]\<rparr>))"

text \<open>The middleware after \<^verbatim>\<open>await connectDB()\<close> has returned or thrown.\<close>

definition ensureDbConnected_connected :: "nat \<Rightarrow> outcome \<Rightarrow> state \<Rightarrow> state" where
  "ensureDbConnected_connected r res s =
     (case res of
        Inr c \<Rightarrow>
          respond r Next
            (say Log [Txt ''[ensureDbConnected] Database connected successfully.''] s)
      | Inl e \<Rightarrow>
          respond r
            (Response 500
               (JObj [(''success'', JBool False),
                      (''message'', JStr ''Failed to connect to database'')]))
            (say Error
               [Txt ''[ensureDbConnected] Failed to establish database connection:'',
                ErrObj e] s))"

text \<open>
  The middleware after the promise on the connection's events has settled: resolved by
  \<^verbatim>\<open>connected\<close>, rejected with the error of \<^verbatim>\<open>error\<close>.
\<close>

definition ensureDbConnected_waited :: "nat \<Rightarrow> outcome \<Rightarrow> state \<Rightarrow> state" where
  "ensureDbConnected_waited r res s =
     (case res of
        Inr c \<Rightarrow>
          respond r Next
            (say Log [Txt ''[ensureDbConnected] Database connected after waiting.''] s)
      | Inl e \<Rightarrow>
          respond r
            (Response 500
               (JObj [(''success'', JBool False),
                      (''message'', JStr ''Failed to connect to database'')]))
            (say Error
               [Txt ''[ensureDbConnected] Error waiting for DB connection:'', ErrObj e] s))"

section \<open>Starting the local server\<close>

text \<open>
  The end of the module: run directly and outside the test environment, it connects
  first, listens once connected and exits with code 1 when the connection fails.
  Imported by the serverless platform, it does none of this. The \<^verbatim>\<open>.catch\<close> is
  chained after the \<^verbatim>\<open>.then\<close>, so it also catches what \<^verbatim>\<open>app.listen\<close>
  throws after a successful connect: \<open>local_server_failed\<close> is its handler.
\<close>

definition local_server_failed :: "db_error \<Rightarrow> state \<Rightarrow> state" where
  "local_server_failed err s =
     (let s1 = say Error
                 [Txt ''[Local Server] Failed to start server due to DB connection error:'',
                  ErrObj err] s
      in s1\<lparr>exit_code := Some 1\<rparr>)"

definition local_server_connected :: "env \<Rightarrow> outcome \<Rightarrow> state \<Rightarrow> state" where
  "local_server_connected ev res s =
     (case res of
        Inr c \<Rightarrow>
          (case listen_throws ev of
             None \<Rightarrow>
               (let s1 = s\<lparr>listening := True\<rparr>;
                    s2 = say Log [Txt ''[Local Server] Server running on port '',
                                  Txt (or_else (PORT ev) ''5000'')] s1
                in say Log [Txt ''   Environment: '',
                            Txt (or_else (NODE_ENV ev) ''development'')] s2)
           | Some err \<Rightarrow> local_server_failed err s)
      | Inl e \<Rightarrow> local_server_failed e s)"

definition local_server_begin :: "env \<Rightarrow> state \<Rightarrow> state" where
  "local_server_begin ev s =
     (if is_main ev \<and> NODE_ENV ev \<noteq> Some ''test''
      then (let s1 = say Log [Txt ''[Local Server] Starting local server...''] s
            in case connectDB_begin ev s1 of
                 (Some c, s2) \<Rightarrow> local_server_connected ev (Inr c) s2
               | (None, s2) \<Rightarrow> s2\<lparr>connectors := connectors s2 @ [Startup]\<rparr>)
      else s)"

section \<open>The event loop\<close>

text \<open>
  Three things happen to the process: a request arrives at the middleware, the
  connection attempt in flight settles, or the connection is lost. No request reaches
  the application of a process that was run directly and does not listen yet, and
  nothing runs after \<^verbatim>\<open>process.exit\<close>.
\<close>

datatype event = Arrive nat | Settled outcome | Dropped

text \<open>
  Modelled from the spec: the loss of the connection after a success, the spec's
  "disconnected after success", is the client's doing and not part of the sources. The
  readiness integer goes from Connected (1) back to Disconnected (0). The server
  registers no listener for it, so \<^verbatim>\<open>cachedDb\<close> keeps the handle.
\<close>

definition mongoose_drop :: "state \<Rightarrow> state" where
  "mongoose_drop s = (if readyState s = 1 then s\<lparr>readyState := 0\<rparr> else s)"

definition resume :: "env \<Rightarrow> outcome \<Rightarrow> caller \<Rightarrow> state \<Rightarrow> state" where
  "resume ev out c s =
     (if exit_code s \<noteq> None then s
      else case connectDB_finish out s of
             (res, s1) \<Rightarrow>
               (case c of
                  Middleware r \<Rightarrow> ensureDbConnected_connected r res s1
                | Startup \<Rightarrow> local_server_connected ev res s1))"

definition wake :: "outcome \<Rightarrow> nat \<Rightarrow> state \<Rightarrow> state" where
  "wake out r s = (if exit_code s \<noteq> None then s else ensureDbConnected_waited r out s)"

text \<open>
  Modelled from the spec: what the client does to its callers when the attempt settles,
  which is not part of the sources. The promise of \<^verbatim>\<open>mongoose.connect\<close> settles
  with the outcome, so the callers suspended in \<^verbatim>\<open>connectDB\<close> run on
  (\<open>resume\<close>); and every caller waiting on the connection is given the outcome of
  the attempt, success or the same failure: the connection emits \<^verbatim>\<open>connected\<close>
  or \<^verbatim>\<open>error\<close> with the error, which settles the promise of each request
  suspended on these events (\<open>wake\<close>). The listeners stay registered in the source,
  but a settled promise ignores them, so they are dropped here. The callers of
  \<^verbatim>\<open>connectDB\<close> are run before the waiting requests.
\<close>

definition settle :: "env \<Rightarrow> outcome \<Rightarrow> state \<Rightarrow> state" where
  "settle ev out s =
     (let s1 = (mongoose_settle out s)\<lparr>connectors := [], waiters := []\<rparr>;
          s2 = fold (resume ev out) (connectors s) s1
      in fold (wake out) (waiters s) s2)"

definition step :: "env \<Rightarrow> event \<Rightarrow> state \<Rightarrow> state" where
  "step ev e s =
     (if exit_code s \<noteq> None then s
      else case e of
             Arrive r \<Rightarrow>
               if is_main ev \<and> \<not> listening s then s else ensureDbConnected_begin ev r s
           | Settled out \<Rightarrow> if connectors s = [] then s else settle ev out s
           | Dropped \<Rightarrow> mongoose_drop s)"

definition run :: "env \<Rightarrow> event list \<Rightarrow> state \<Rightarrow> state" where
  "run ev es s = fold (step ev) es s"

definition boot :: "env \<Rightarrow> state" where
  "boot ev = local_server_begin ev init"

section \<open>The first variant of the server\<close>

text \<open>
  The first variant of \<^verbatim>\<open>server.js\<close> has no middleware for the connection. Its
  \<^verbatim>\<open>connectDB\<close> is called once, when the module is run directly, and calls
  \<^verbatim>\<open>process.exit(1)\<close> itself when the attempt fails. Nothing catches what
  \<^verbatim>\<open>app.listen\<close> throws inside the \<^verbatim>\<open>.then\<close>: the rejection is unhandled,
  and the process ends with code 1 without listening.
\<close>

definition connectDB_v1_begin :: "env \<Rightarrow> state \<Rightarrow> state" where
  "connectDB_v1_begin ev s =
     mongoose_connect (or_else (MONGODB_URI ev) fallback_uri)
       (JObj [(''useNewUrlParser'', JBool True), (''useUnifiedTopology'', JBool True)]) s"

definition connectDB_v1_finish :: "outcome \<Rightarrow> state \<Rightarrow> state" where
  "connectDB_v1_finish out s =
     (case out of
        Inr c \<Rightarrow> say Log [Txt ''MongoDB Connected: '', Txt (conn_host c)] s
      | Inl e \<Rightarrow>
          (say Error [Txt ''Database connection error:'', ErrObj e] s)\<lparr>exit_code := Some 1\<rparr>)"

definition server_v1_begin :: "env \<Rightarrow> state \<Rightarrow> state" where
  "server_v1_begin ev s =
     (if is_main ev \<and> NODE_ENV ev \<noteq> Some ''test'' then connectDB_v1_begin ev s else s)"

definition server_v1_settled :: "env \<Rightarrow> outcome \<Rightarrow> state \<Rightarrow> state" where
  "server_v1_settled ev out s =
     (let s1 = connectDB_v1_finish out (mongoose_settle out s)
      in if exit_code s1 \<noteq> None then s1
         else (case listen_throws ev of
                 None \<Rightarrow>
                   (let s2 = s1\<lparr>listening := True\<rparr>;
                        s3 = say Log [Txt ''Server running on port '',
                                      Txt (or_else (PORT ev) ''5000'')] s2
                    in say Log [Txt ''Environment: '',
                                Txt (or_else (NODE_ENV ev) ''development'')] s3)
               | Some err \<Rightarrow> s1\<lparr>exit_code := Some 1\<rparr>))"

section \<open>The health-check handlers\<close>

definition json_field :: "json \<Rightarrow> string \<Rightarrow> json option" where
  "json_field j k = (case j of JObj fs \<Rightarrow> map_of fs k | _ \<Rightarrow> None)"

text \<open>
  \<^verbatim>\<open>GET /api/health\<close> of the server with the connection middleware (and of the
  first variant of \<^verbatim>\<open>server.js\<close>): the argument is
  \<^verbatim>\<open>new Date().toISOString()\<close>.
\<close>

definition health_check :: "string \<Rightarrow> reply" where
  "health_check timestamp =
     Response 200
       (JObj [(''status'', JStr ''OK''),
              (''message'', JStr ''Campus Recruitment API is running''),
              (''timestamp'', JStr timestamp)])"

text \<open>
  The enhanced handler of the second variant of \<^verbatim>\<open>server.js\<close>. What it reads of
  the process and of the client: the readiness integer, the host and name of the
  connection, \<^verbatim>\<open>process.memoryUsage()\<close>, \<^verbatim>\<open>process.uptime()\<close>, the time, and
  the outcome of the ping it sends when the readiness integer is 1 (\<open>None\<close> when the
  ping succeeds, the message of the error otherwise).
\<close>

record health_input =
  h_readyState :: nat
  h_host :: "string option"
  h_name :: "string option"
  h_memory :: json
  h_uptime :: json
  h_timestamp :: string
  h_ping :: "string option"

definition dbStatusText :: "nat \<Rightarrow> string option" where
  "dbStatusText n =
     (if n = 0 then Some ''disconnected''
      else if n = 1 then Some ''connected''
      else if n = 2 then Some ''connecting''
      else if n = 3 then Some ''disconnecting''
      else None)"

definition health_check_enhanced :: "env \<Rightarrow> health_input \<Rightarrow> reply" where
  "health_check_enhanced ev h =
     (let dbStatus = h_readyState h;
          database =
            [(''status'', JStr (or_else (dbStatusText dbStatus) ''unknown'')),
             (''readyState'', JNum (int dbStatus)),
             (''connected'', JBool (dbStatus = 1)),
             (''host'', JStr (or_else (h_host h) ''N/A'')),
             (''name'', JStr (or_else (h_name h) ''N/A''))];
          ping =
            (if dbStatus = 1
             then (case h_ping h of
                     None \<Rightarrow> [(''ping'', JStr ''success'')]
                   | Some m \<Rightarrow> [(''ping'', JStr ''failed''), (''pingError'', JStr m)])
             else [])
      in Response 200
           (JObj [(''status'', JStr ''OK''),
                  (''message'', JStr ''Campus Recruitment API is running''),
                  (''timestamp'', JStr (h_timestamp h)),
                  (''environment'', JStr (or_else (NODE_ENV ev) ''development'')),
                  (''database'', JObj (database @ ping)),
                  (''memory'', h_memory h),
                  (''uptime'', h_uptime h)]))"

text \<open>The body of a reply, and the \<^verbatim>\<open>database.connected\<close> field of a body.\<close>

definition body_of :: "reply \<Rightarrow> json" where
  "body_of x = (case x of Next \<Rightarrow> JNull | Response status body \<Rightarrow> body)"

definition db_connected :: "reply \<Rightarrow> json option" where
  "db_connected x =
     (case json_field (body_of x) ''database'' of
        None \<Rightarrow> None
      | Some database \<Rightarrow> json_field database ''connected'')"

section \<open>Notions of the specification\<close>

text \<open>The body the specification gives for a failed ensure-connected operation.\<close>

definition failure_body :: json where
  "failure_body =
     JObj [(''success'', JBool False), (''message'', JStr ''Failed to connect to database'')]"

text \<open>What a caller of the ensure-connected operation observes of an attempt's outcome.\<close>

definition verdict :: "outcome \<Rightarrow> reply" where
  "verdict out = (case out of Inr c \<Rightarrow> Next | Inl e \<Rightarrow> Response 500 failure_body)"

text \<open>
  The failure kinds of the specification: DNS resolution, connection refused, server or
  authentication error, server-selection timeout, and anything else.
\<close>

datatype failure_kind =
  DNSResolution | ConnectionRefused | AuthenticationFailure | Timeout | Unknown

definition classify :: "db_error \<Rightarrow> failure_kind" where
  "classify e =
     (if err_code e = StrCode ''ENOTFOUND'' then DNSResolution
      else if err_code e = StrCode ''ECONNREFUSED'' then ConnectionRefused
      else if err_name e = ''MongoServerError'' then AuthenticationFailure
      else if err_name e = ''MongooseServerSelectionError'' then Timeout
      else Unknown)"

definition kind_line :: "failure_kind \<Rightarrow> log_line list" where
  "kind_line k =
     (case k of
        DNSResolution \<Rightarrow>
          [(Error, [Txt ''   DNS resolution failed - check your MongoDB URI''])]
      | ConnectionRefused \<Rightarrow>
          [(Error,
            [Txt ''   Connection refused - check if MongoDB is running and port is open''])]
      | AuthenticationFailure \<Rightarrow>
          [(Error, [Txt ''   MongoDB server error - check credentials and network access''])]
      | Timeout \<Rightarrow>
          [(Error, [Txt ''   Mongoose server selection error - check network access or URI''])]
      | Unknown \<Rightarrow> [])"

text \<open>
  Two events have the same shape when they differ at most in the error a failed attempt
  carries.
\<close>

definition same_shape :: "event \<Rightarrow> event \<Rightarrow> bool" where
  "same_shape a b =
     (case (a, b) of
        (Arrive r, Arrive r') \<Rightarrow> r = r'
      | (Settled (Inr c), Settled (Inr c')) \<Rightarrow> c = c'
      | (Settled (Inl e), Settled (Inl e')) \<Rightarrow> True
      | (Dropped, Dropped) \<Rightarrow> True
      | _ \<Rightarrow> False)"

definition same_outcome :: "outcome \<Rightarrow> outcome \<Rightarrow> bool" where
  "same_outcome a b = same_shape (Settled a) (Settled b)"

text \<open>Two states are alike when they differ at most in the console.\<close>

definition alike :: "state \<Rightarrow> state \<Rightarrow> bool" where
  "alike s t = (s\<lparr>console := []\<rparr> = t\<lparr>console := []\<rparr>)"

section \<open>Invariants of the event loop\<close>

text \<open>
  While the readiness integer is 2 exactly one caller is suspended in
  \<^verbatim>\<open>connectDB\<close>: a request, or the startup code of a process that does not listen
  yet; otherwise nobody is suspended.
\<close>

definition inv :: "env \<Rightarrow> state \<Rightarrow> bool" where
  "inv ev s =
     ((connectors s \<noteq> [] \<longrightarrow> exit_code s = None) \<and>
      (readyState s = 2 \<longrightarrow>
         (\<exists>r. connectors s = [Middleware r] \<and> (is_main ev \<longrightarrow> listening s)) \<or>
         (connectors s = [Startup] \<and> is_main ev \<and> \<not> listening s \<and> waiters s = [])) \<and>
      (readyState s \<noteq> 2 \<longrightarrow> connectors s = [] \<and> waiters s = []))"

text \<open>A process that listens has not exited and is past its startup.\<close>

definition served :: "state \<Rightarrow> bool" where
  "served s = (listening s \<longrightarrow> exit_code s = None \<and> Startup \<notin> set (connectors s))"

section \<open>Sample inputs\<close>

definition serverless_env :: env where
  "serverless_env =
     \<lparr>MONGODB_URI = Some ''mongodb+srv://cluster0.example.net/campus_recruitment'',
      NODE_ENV = Some ''production'', PORT = None, is_main = False, listen_throws = None\<rparr>"

definition local_env :: env where
  "local_env =
     \<lparr>MONGODB_URI = None, NODE_ENV = Some ''development'', PORT = None, is_main = True,
      listen_throws = None\<rparr>"

definition bad_port :: db_error where
  "bad_port =
     \<lparr>err_message = ''options.port should be >= 0 and < 65536. Received type number (99999).'',
      err_code = StrCode ''ERR_SOCKET_BAD_PORT'', err_name = ''RangeError''\<rparr>"

definition bad_port_env :: env where
  "bad_port_env =
     \<lparr>MONGODB_URI = None, NODE_ENV = Some ''development'', PORT = Some ''99999'',
      is_main = True, listen_throws = Some bad_port\<rparr>"

definition refused :: db_error where
  "refused =
     \<lparr>err_message = ''connect ECONNREFUSED 127.0.0.1:27017'',
      err_code = StrCode ''ECONNREFUSED'', err_name = ''MongooseServerSelectionError''\<rparr>"

definition not_found :: db_error where
  "not_found =
     \<lparr>err_message = ''getaddrinfo ENOTFOUND cluster0.example.net'',
      err_code = StrCode ''ENOTFOUND'', err_name = ''Error''\<rparr>"

definition cluster :: conn where
  "cluster =
     \<lparr>conn_host = ''cluster0.example.net'', conn_name = ''campus_recruitment'',
      conn_port = ''27017''\<rparr>"

section \<open>What each piece changes\<close>

lemma say_fields [simp]:
  "cachedDb (say l as s) = cachedDb s"
  "readyState (say l as s) = readyState s"
  "strictQuery (say l as s) = strictQuery s"
  "connect_calls (say l as s) = connect_calls s"
  "connectors (say l as s) = connectors s"
  "waiters (say l as s) = waiters s"
  "replies (say l as s) = replies s"
  "listening (say l as s) = listening s"
  "exit_code (say l as s) = exit_code s"
  "console (say l as s) = console s @ [(l, as)]"
  by (simp_all add: say_def)

lemma respond_fields [simp]:
  "cachedDb (respond r x s) = cachedDb s"
  "readyState (respond r x s) = readyState s"
  "strictQuery (respond r x s) = strictQuery s"
  "connect_calls (respond r x s) = connect_calls s"
  "connectors (respond r x s) = connectors s"
  "waiters (respond r x s) = waiters s"
  "replies (respond r x s) = replies s @ [(r, x)]"
  "listening (respond r x s) = listening s"
  "exit_code (respond r x s) = exit_code s"
  "console (respond r x s) = console s"
  by (simp_all add: respond_def)

lemma connectDB_attempt_fields [simp]:
  "cachedDb (connectDB_attempt ev s) = cachedDb s"
  "readyState (connectDB_attempt ev s) = 2"
  "connect_calls (connectDB_attempt ev s) =
     connect_calls s @ [(or_else (MONGODB_URI ev) fallback_uri, connectDB_options)]"
  "connectors (connectDB_attempt ev s) = connectors s"
  "waiters (connectDB_attempt ev s) = waiters s"
  "replies (connectDB_attempt ev s) = replies s"
  "listening (connectDB_attempt ev s) = listening s"
  "exit_code (connectDB_attempt ev s) = exit_code s"
  by (simp_all add: connectDB_attempt_def mongoose_connect_def Let_def)

lemma connectDB_hint_fields [simp]:
  "cachedDb (connectDB_hint e s) = cachedDb s"
  "readyState (connectDB_hint e s) = readyState s"
  "strictQuery (connectDB_hint e s) = strictQuery s"
  "connect_calls (connectDB_hint e s) = connect_calls s"
  "connectors (connectDB_hint e s) = connectors s"
  "waiters (connectDB_hint e s) = waiters s"
  "replies (connectDB_hint e s) = replies s"
  "listening (connectDB_hint e s) = listening s"
  "exit_code (connectDB_hint e s) = exit_code s"
  by (simp_all add: connectDB_hint_def)

lemma connectDB_hint_console:
  "console (connectDB_hint e s) = console s @ kind_line (classify e)"
  by (simp add: connectDB_hint_def classify_def kind_line_def)

lemma connectDB_finish_fields [simp]:
  "fst (connectDB_finish out s) = out"
  "cachedDb (snd (connectDB_finish out s)) = (case out of Inr c \<Rightarrow> Some c | Inl e \<Rightarrow> None)"
  "readyState (snd (connectDB_finish out s)) = readyState s"
  "strictQuery (snd (connectDB_finish out s)) = strictQuery s"
  "connect_calls (snd (connectDB_finish out s)) = connect_calls s"
  "connectors (snd (connectDB_finish out s)) = connectors s"
  "waiters (snd (connectDB_finish out s)) = waiters s"
  "replies (snd (connectDB_finish out s)) = replies s"
  "listening (snd (connectDB_finish out s)) = listening s"
  "exit_code (snd (connectDB_finish out s)) = exit_code s"
  by (simp_all add: connectDB_finish_def Let_def split: sum.split)


lemma ensureDbConnected_connected_fields [simp]:
  "cachedDb (ensureDbConnected_connected r res s) = cachedDb s"
  "readyState (ensureDbConnected_connected r res s) = readyState s"
  "strictQuery (ensureDbConnected_connected r res s) = strictQuery s"
  "connect_calls (ensureDbConnected_connected r res s) = connect_calls s"
  "connectors (ensureDbConnected_connected r res s) = connectors s"
  "waiters (ensureDbConnected_connected r res s) = waiters s"
  "replies (ensureDbConnected_connected r res s) = replies s @ [(r, verdict res)]"
  "listening (ensureDbConnected_connected r res s) = listening s"
  "exit_code (ensureDbConnected_connected r res s) = exit_code s"
  by (simp_all add: ensureDbConnected_connected_def verdict_def failure_body_def
      split: sum.split)

lemma ensureDbConnected_waited_fields [simp]:
  "cachedDb (ensureDbConnected_waited r res s) = cachedDb s"
  "readyState (ensureDbConnected_waited r res s) = readyState s"
  "strictQuery (ensureDbConnected_waited r res s) = strictQuery s"
  "connect_calls (ensureDbConnected_waited r res s) = connect_calls s"
  "connectors (ensureDbConnected_waited r res s) = connectors s"
  "waiters (ensureDbConnected_waited r res s) = waiters s"
  "replies (ensureDbConnected_waited r res s) = replies s @ [(r, verdict res)]"
  "listening (ensureDbConnected_waited r res s) = listening s"
  "exit_code (ensureDbConnected_waited r res s) = exit_code s"
  by (simp_all add: ensureDbConnected_waited_def verdict_def failure_body_def
      split: sum.split)

lemma local_server_connected_fields [simp]:
  "cachedDb (local_server_connected ev res s) = cachedDb s"
  "readyState (local_server_connected ev res s) = readyState s"
  "strictQuery (local_server_connected ev res s) = strictQuery s"
  "connect_calls (local_server_connected ev res s) = connect_calls s"
  "connectors (local_server_connected ev res s) = connectors s"
  "waiters (local_server_connected ev res s) = waiters s"
  "replies (local_server_connected ev res s) = replies s"
  "listening (local_server_connected ev res s) =
     (case res of
        Inr c \<Rightarrow> (case listen_throws ev of None \<Rightarrow> True | Some err \<Rightarrow> listening s)
      | Inl e \<Rightarrow> listening s)"
  "exit_code (local_server_connected ev res s) =
     (case res of
        Inr c \<Rightarrow> (case listen_throws ev of None \<Rightarrow> exit_code s | Some err \<Rightarrow> Some 1)
      | Inl e \<Rightarrow> Some 1)"
  by (simp_all add: local_server_connected_def local_server_failed_def Let_def
      split: sum.split option.split)

lemma mongoose_drop_fields [simp]:
  "cachedDb (mongoose_drop s) = cachedDb s"
  "readyState (mongoose_drop s) = (if readyState s = 1 then 0 else readyState s)"
  "strictQuery (mongoose_drop s) = strictQuery s"
  "connect_calls (mongoose_drop s) = connect_calls s"
  "connectors (mongoose_drop s) = connectors s"
  "waiters (mongoose_drop s) = waiters s"
  "replies (mongoose_drop s) = replies s"
  "listening (mongoose_drop s) = listening s"
  "exit_code (mongoose_drop s) = exit_code s"
  "console (mongoose_drop s) = console s"
  by (simp_all add: mongoose_drop_def)

lemma mongoose_settle_fields [simp]:
  "cachedDb (mongoose_settle out s) = cachedDb s"
  "readyState (mongoose_settle out s) = (case out of Inr c \<Rightarrow> 1 | Inl e \<Rightarrow> 0)"
  "strictQuery (mongoose_settle out s) = strictQuery s"
  "connect_calls (mongoose_settle out s) = connect_calls s"
  "connectors (mongoose_settle out s) = connectors s"
  "waiters (mongoose_settle out s) = waiters s"
  "replies (mongoose_settle out s) = replies s"
  "listening (mongoose_settle out s) = listening s"
  "exit_code (mongoose_settle out s) = exit_code s"
  by (simp_all add: mongoose_settle_def split: sum.split)

lemma resume_fields [simp]:
  "readyState (resume ev out c s) = readyState s"
  "strictQuery (resume ev out c s) = strictQuery s"
  "connect_calls (resume ev out c s) = connect_calls s"
  "connectors (resume ev out c s) = connectors s"
  "waiters (resume ev out c s) = waiters s"
  by (simp_all add: resume_def split: prod.split caller.split)
     (metis connectDB_finish_fields snd_conv)+

lemma wake_fields [simp]:
  "cachedDb (wake out r s) = cachedDb s"
  "readyState (wake out r s) = readyState s"
  "strictQuery (wake out r s) = strictQuery s"
  "connect_calls (wake out r s) = connect_calls s"
  "connectors (wake out r s) = connectors s"
  "waiters (wake out r s) = waiters s"
  "listening (wake out r s) = listening s"
  "exit_code (wake out r s) = exit_code s"
  by (simp_all add: wake_def)

lemma resume_Middleware:
  "exit_code s = None \<Longrightarrow>
   resume ev out (Middleware r) s =
     ensureDbConnected_connected r out (snd (connectDB_finish out s))"
  by (simp add: resume_def split: prod.split) (metis connectDB_finish_fields(1) fst_conv snd_conv)

lemma resume_Startup:
  "exit_code s = None \<Longrightarrow>
   resume ev out Startup s = local_server_connected ev out (snd (connectDB_finish out s))"
  by (simp add: resume_def split: prod.split) (metis connectDB_finish_fields(1) fst_conv snd_conv)

lemma fold_wake_fields [simp]:
  "cachedDb (fold (wake out) ws s) = cachedDb s"
  "readyState (fold (wake out) ws s) = readyState s"
  "strictQuery (fold (wake out) ws s) = strictQuery s"
  "connect_calls (fold (wake out) ws s) = connect_calls s"
  "connectors (fold (wake out) ws s) = connectors s"
  "waiters (fold (wake out) ws s) = waiters s"
  "listening (fold (wake out) ws s) = listening s"
  "exit_code (fold (wake out) ws s) = exit_code s"
  by (induction ws arbitrary: s; simp)+

lemma fold_wake_replies:
  "exit_code s = None \<Longrightarrow>
   replies (fold (wake out) ws s) = replies s @ map (\<lambda>r. (r, verdict out)) ws"
  by (induction ws arbitrary: s) (simp_all add: wake_def)

lemma fold_resume_fields [simp]:
  "readyState (fold (resume ev out) cs s) = readyState s"
  "strictQuery (fold (resume ev out) cs s) = strictQuery s"
  "connect_calls (fold (resume ev out) cs s) = connect_calls s"
  "connectors (fold (resume ev out) cs s) = connectors s"
  "waiters (fold (resume ev out) cs s) = waiters s"
  by (induction cs arbitrary: s; simp)+

lemma settle_fields [simp]:
  "readyState (settle ev out s) = (case out of Inr c \<Rightarrow> 1 | Inl e \<Rightarrow> 0)"
  "strictQuery (settle ev out s) = strictQuery s"
  "connect_calls (settle ev out s) = connect_calls s"
  "connectors (settle ev out s) = []"
  "waiters (settle ev out s) = []"
  by (simp_all add: settle_def Let_def)

lemma settle_Middleware:
  assumes "exit_code s = None" and "connectors s = [Middleware r]"
  shows "exit_code (settle ev out s) = None"
    and "cachedDb (settle ev out s) = (case out of Inr c \<Rightarrow> Some c | Inl e \<Rightarrow> None)"
    and "listening (settle ev out s) = listening s"
    and "replies (settle ev out s) =
           replies s @ map (\<lambda>r. (r, verdict out)) (r # waiters s)"
  using assms by (simp_all add: settle_def Let_def resume_Middleware fold_wake_replies)

lemma settle_Startup:
  assumes "exit_code s = None" and "connectors s = [Startup]"
  shows "exit_code (settle ev out s) =
           (case out of
              Inr c \<Rightarrow> (case listen_throws ev of None \<Rightarrow> None | Some err \<Rightarrow> Some 1)
            | Inl e \<Rightarrow> Some 1)"
    and "cachedDb (settle ev out s) = (case out of Inr c \<Rightarrow> Some c | Inl e \<Rightarrow> None)"
    and "listening (settle ev out s) =
           (case out of
              Inr c \<Rightarrow> (case listen_throws ev of None \<Rightarrow> True | Some err \<Rightarrow> listening s)
            | Inl e \<Rightarrow> listening s)"
  using assms
  by (simp_all add: settle_def Let_def resume_Startup split: sum.split option.split)

lemma begin_connected:
  assumes "readyState s = 1"
  shows "cachedDb (ensureDbConnected_begin ev r s) = cachedDb s"
    and "readyState (ensureDbConnected_begin ev r s) = 1"
    and "connect_calls (ensureDbConnected_begin ev r s) = connect_calls s"
    and "connectors (ensureDbConnected_begin ev r s) = connectors s"
    and "waiters (ensureDbConnected_begin ev r s) = waiters s"
    and "replies (ensureDbConnected_begin ev r s) = replies s @ [(r, Next)]"
    and "listening (ensureDbConnected_begin ev r s) = listening s"
    and "exit_code (ensureDbConnected_begin ev r s) = exit_code s"
  using assms by (simp_all add: ensureDbConnected_begin_def)

lemma begin_connecting:
  assumes "readyState s = 2"
  shows "cachedDb (ensureDbConnected_begin ev r s) = cachedDb s"
    and "readyState (ensureDbConnected_begin ev r s) = 2"
    and "connect_calls (ensureDbConnected_begin ev r s) = connect_calls s"
    and "connectors (ensureDbConnected_begin ev r s) = connectors s"
    and "waiters (ensureDbConnected_begin ev r s) = waiters s @ [r]"
    and "replies (ensureDbConnected_begin ev r s) = replies s"
    and "listening (ensureDbConnected_begin ev r s) = listening s"
    and "exit_code (ensureDbConnected_begin ev r s) = exit_code s"
  using assms by (simp_all add: ensureDbConnected_begin_def Let_def)

lemma begin_disconnected:
  assumes "readyState s \<noteq> 1" and "readyState s \<noteq> 2"
  shows "cachedDb (ensureDbConnected_begin ev r s) = cachedDb s"
    and "readyState (ensureDbConnected_begin ev r s) = 2"
    and "connect_calls (ensureDbConnected_begin ev r s) =
           connect_calls s @ [(or_else (MONGODB_URI ev) fallback_uri, connectDB_options)]"
    and "connectors (ensureDbConnected_begin ev r s) = connectors s @ [Middleware r]"
    and "waiters (ensureDbConnected_begin ev r s) = waiters s"
    and "replies (ensureDbConnected_begin ev r s) = replies s"
    and "listening (ensureDbConnected_begin ev r s) = listening s"
    and "exit_code (ensureDbConnected_begin ev r s) = exit_code s"
  using assms
  by (simp_all add: ensureDbConnected_begin_def connectDB_begin_def Let_def
      split: option.split)

lemma init_fields [simp]:
  "cachedDb init = None" "readyState init = 0" "connect_calls init = []"
  "connectors init = []" "waiters init = []" "replies init = []"
  "listening init = False" "exit_code init = None"
  by (simp_all add: init_def)

lemma boot_serverless: "\<not> is_main ev \<Longrightarrow> boot ev = init"
  by (simp add: boot_def local_server_begin_def)

lemma boot_local:
  assumes "is_main ev" and "NODE_ENV ev \<noteq> Some ''test''"
  shows "cachedDb (boot ev) = None"
    and "readyState (boot ev) = 2"
    and "connect_calls (boot ev) =
           [(or_else (MONGODB_URI ev) fallback_uri, connectDB_options)]"
    and "connectors (boot ev) = [Startup]"
    and "waiters (boot ev) = []"
    and "replies (boot ev) = []"
    and "listening (boot ev) = False"
    and "exit_code (boot ev) = None"
  using assms
  by (simp_all add: boot_def local_server_begin_def connectDB_begin_def Let_def)

lemma inv_boot: "inv ev (boot ev)"
proof (cases "is_main ev \<and> NODE_ENV ev \<noteq> Some ''test''")
  case True
  then show ?thesis by (simp add: inv_def boot_local)
next
  case False
  then have "boot ev = init" by (auto simp: boot_def local_server_begin_def)
  then show ?thesis by (simp add: inv_def)
qed

lemma inv_arrive:
  assumes "inv ev s" and "exit_code s = None" and "is_main ev \<longrightarrow> listening s"
  shows "inv ev (ensureDbConnected_begin ev r s)"
proof -
  consider "readyState s = 1" | "readyState s = 2" | "readyState s \<noteq> 1 \<and> readyState s \<noteq> 2"
    by blast
  then show ?thesis
  proof cases
    case 1
    with assms show ?thesis by (simp add: inv_def begin_connected)
  next
    case 2
    with assms show ?thesis by (auto simp: inv_def begin_connecting)
  next
    case 3
    with assms show ?thesis by (simp add: inv_def begin_disconnected)
  qed
qed

lemma inv_settle:
  assumes "inv ev s" and "connectors s \<noteq> []"
  shows "inv ev (settle ev out s)"
  using assms by (simp add: inv_def split: sum.split)

lemma inv_drop: "inv ev s \<Longrightarrow> inv ev (mongoose_drop s)"
  by (auto simp: inv_def)

lemma inv_step: "inv ev s \<Longrightarrow> inv ev (step ev e s)"
  by (cases e) (simp_all add: step_def inv_arrive inv_settle inv_drop)

lemma inv_run: "inv ev s \<Longrightarrow> inv ev (run ev es s)"
  unfolding run_def by (induction es arbitrary: s) (simp_all add: inv_step)

lemma inv_reachable: "inv ev (run ev es (boot ev))"
  by (simp add: inv_run inv_boot)

lemma run_Nil [simp]: "run ev [] s = s"
  by (simp add: run_def)

lemma run_Cons [simp]: "run ev (e # es) s = run ev es (step ev e s)"
  by (simp add: run_def)

lemma run_append [simp]: "run ev (es @ es') s = run ev es' (run ev es s)"
  by (simp add: run_def)

lemma step_Arrive:
  "exit_code s = None \<Longrightarrow> is_main ev \<longrightarrow> listening s \<Longrightarrow>
   step ev (Arrive r) s = ensureDbConnected_begin ev r s"
  by (auto simp: step_def)

lemma step_Settled:
  "exit_code s = None \<Longrightarrow> connectors s \<noteq> [] \<Longrightarrow>
   step ev (Settled out) s = settle ev out s"
  by (simp add: step_def)

lemma step_connect_calls_Settled:
  "connect_calls (step ev (Settled out) s) = connect_calls s"
  by (simp add: step_def)

lemma arrivals_connecting:
  assumes "readyState s = 2" and "exit_code s = None" and "is_main ev \<longrightarrow> listening s"
  shows "readyState (run ev (map Arrive rs) s) = 2 \<and>
         exit_code (run ev (map Arrive rs) s) = None \<and>
         listening (run ev (map Arrive rs) s) = listening s \<and>
         cachedDb (run ev (map Arrive rs) s) = cachedDb s \<and>
         connect_calls (run ev (map Arrive rs) s) = connect_calls s \<and>
         connectors (run ev (map Arrive rs) s) = connectors s \<and>
         waiters (run ev (map Arrive rs) s) = waiters s @ rs \<and>
         replies (run ev (map Arrive rs) s) = replies s"
  using assms
proof (induction rs arbitrary: s)
  case Nil
  then show ?case by simp
next
  case (Cons r rs)
  let ?t = "ensureDbConnected_begin ev r s"
  have st: "step ev (Arrive r) s = ?t"
    using Cons.prems by (simp add: step_Arrive)
  have "readyState ?t = 2" "exit_code ?t = None" "is_main ev \<longrightarrow> listening ?t"
    using Cons.prems by (simp_all add: begin_connecting)
  from Cons.IH [OF this] show ?case
    using Cons.prems by (simp add: st begin_connecting)
qed

lemma arrivals_connected:
  assumes "readyState s = 1" and "exit_code s = None" and "is_main ev \<longrightarrow> listening s"
  shows "readyState (run ev (map Arrive rs) s) = 1 \<and>
         exit_code (run ev (map Arrive rs) s) = None \<and>
         listening (run ev (map Arrive rs) s) = listening s \<and>
         cachedDb (run ev (map Arrive rs) s) = cachedDb s \<and>
         connect_calls (run ev (map Arrive rs) s) = connect_calls s \<and>
         connectors (run ev (map Arrive rs) s) = connectors s \<and>
         waiters (run ev (map Arrive rs) s) = waiters s \<and>
         replies (run ev (map Arrive rs) s) = replies s @ map (\<lambda>r. (r, Next)) rs"
  using assms
proof (induction rs arbitrary: s)
  case Nil
  then show ?case by simp
next
  case (Cons r rs)
  let ?t = "ensureDbConnected_begin ev r s"
  have st: "step ev (Arrive r) s = ?t"
    using Cons.prems by (simp add: step_Arrive)
  have "readyState ?t = 1" "exit_code ?t = None" "is_main ev \<longrightarrow> listening ?t"
    using Cons.prems by (simp_all add: begin_connected)
  from Cons.IH [OF this] show ?case
    using Cons.prems by (simp add: st begin_connected)
qed

lemma begin_always [simp]:
  "exit_code (ensureDbConnected_begin ev r s) = exit_code s"
  "listening (ensureDbConnected_begin ev r s) = listening s"
  "(Startup \<in> set (connectors (ensureDbConnected_begin ev r s))) = (Startup \<in> set (connectors s))"
  "length (connect_calls (ensureDbConnected_begin ev r s)) \<le> Suc (length (connect_calls s))"
  by (simp_all add: ensureDbConnected_begin_def connectDB_begin_def Let_def
      split: option.split)

lemma fold_resume_no_startup:
  "Startup \<notin> set cs \<Longrightarrow>
   exit_code (fold (resume ev out) cs s) = exit_code s \<and>
   listening (fold (resume ev out) cs s) = listening s"
proof (induction cs arbitrary: s)
  case Nil
  then show ?case by simp
next
  case (Cons c cs)
  then obtain r where c: "c = Middleware r" by (cases c) auto
  have "exit_code (resume ev out c s) = exit_code s \<and> listening (resume ev out c s) = listening s"
    by (cases "exit_code s") (simp_all add: c resume_Middleware, simp add: resume_def)
  with Cons show ?case by simp
qed

lemma step_keeps_alive:
  assumes "exit_code s = None" and "Startup \<notin> set (connectors s)"
  shows "exit_code (step ev e s) = None \<and> Startup \<notin> set (connectors (step ev e s))"
proof (cases e)
  case (Arrive r)
  with assms show ?thesis by (simp add: step_def)
next
  case (Settled out)
  with assms show ?thesis
    by (simp add: step_def settle_def Let_def fold_resume_no_startup)
next
  case Dropped
  with assms show ?thesis by (simp add: step_def)
qed

lemma run_keeps_alive:
  "exit_code s = None \<Longrightarrow> Startup \<notin> set (connectors s) \<Longrightarrow> exit_code (run ev es s) = None"
proof (induction es arbitrary: s)
  case Nil
  then show ?case by simp
next
  case (Cons e es)
  from step_keeps_alive [OF Cons.prems, of ev e] Cons.IH show ?case by simp
qed

lemma serverless_never_exits: "\<not> is_main ev \<Longrightarrow> exit_code (run ev es (boot ev)) = None"
  by (simp add: run_keeps_alive boot_serverless)

lemma served_step:
  assumes i: "inv ev s" and s: "served s"
  shows "served (step ev e s)"
proof (cases e)
  case (Arrive r)
  with s show ?thesis by (simp add: step_def served_def)
next
  case Dropped
  with s show ?thesis by (simp add: step_def served_def)
next
  case (Settled out)
  show ?thesis
  proof (cases "exit_code s = None \<and> connectors s \<noteq> []")
    case False
    with s Settled show ?thesis by (auto simp: step_def)
  next
    case True
    then have st: "step ev e s = settle ev out s" by (simp add: Settled step_def)
    from i True consider r where "connectors s = [Middleware r]"
      | "connectors s = [Startup]" "\<not> listening s"
      by (auto simp: inv_def)
    then show ?thesis
    proof cases
      case 1
      with True show ?thesis by (simp add: st served_def settle_Middleware)
    next
      case 2
      with True show ?thesis
        by (simp add: st served_def settle_Startup split: sum.split option.split)
    qed
  qed
qed

lemma served_run: "inv ev s \<Longrightarrow> served s \<Longrightarrow> served (run ev es s)"
  by (induction es arbitrary: s) (simp_all add: served_step inv_step)

lemma served_boot: "served (boot ev)"
proof (cases "is_main ev \<and> NODE_ENV ev \<noteq> Some ''test''")
  case True
  then show ?thesis by (simp add: served_def boot_local)
next
  case False
  then have "boot ev = init" by (auto simp: boot_def local_server_begin_def)
  then show ?thesis by (simp add: served_def)
qed

lemma step_settled_state:
  assumes "readyState s = 1" and "connectors s = []" and "e \<noteq> Dropped"
  shows "readyState (step ev e s) = 1 \<and> connectors (step ev e s) = [] \<and>
         cachedDb (step ev e s) = cachedDb s \<and> connect_calls (step ev e s) = connect_calls s"
  using assms by (cases e) (simp_all add: step_def begin_connected)

lemma run_settled_state:
  assumes "readyState s = 1" and "connectors s = []" and "Dropped \<notin> set es"
  shows "readyState (run ev es s) = 1 \<and> connectors (run ev es s) = [] \<and>
         cachedDb (run ev es s) = cachedDb s \<and> connect_calls (run ev es s) = connect_calls s"
  using assms
proof (induction es arbitrary: s)
  case Nil
  then show ?case by simp
next
  case (Cons e es)
  then have "e \<noteq> Dropped" "Dropped \<notin> set es" by auto
  note st = step_settled_state [OF Cons.prems(1,2) this(1), of ev]
  from Cons.IH [of "step ev e s"] st \<open>Dropped \<notin> set es\<close> show ?case by simp
qed

lemma connectDB_begin_cached:
  "cachedDb s = Some c \<Longrightarrow> readyState s = 1 \<Longrightarrow> fst (connectDB_begin ev s) = Some c \<and>
     connect_calls (snd (connectDB_begin ev s)) = connect_calls s"
  by (simp add: connectDB_begin_def)

lemma in_flight:
  assumes "s = run ev es (boot ev)" and "connectors s \<noteq> []"
  shows "exit_code s = None \<and> readyState s = 2 \<and>
         ((\<exists>r. connectors s = [Middleware r] \<and> (is_main ev \<longrightarrow> listening s)) \<or>
          connectors s = [Startup])"
proof -
  have "inv ev s" using assms(1) by (simp add: inv_reachable)
  with assms(2) show ?thesis by (auto simp: inv_def)
qed

section \<open>Sample runs and counting\<close>

lemma sample_first_request:
  "boot serverless_env = init"
  "step serverless_env (Arrive r) init = ensureDbConnected_begin serverless_env r init"
  "connectors (ensureDbConnected_begin serverless_env r init) = [Middleware r]"
  "exit_code (ensureDbConnected_begin serverless_env r init) = None"
  "waiters (ensureDbConnected_begin serverless_env r init) = []"
  "replies (ensureDbConnected_begin serverless_env r init) = []"
  "readyState (ensureDbConnected_begin serverless_env r init) = 2"
  "connect_calls (ensureDbConnected_begin serverless_env r init) =
     [(or_else (MONGODB_URI serverless_env) fallback_uri, connectDB_options)]"
proof -
  have m: "\<not> is_main serverless_env" by (simp add: serverless_env_def)
  show "boot serverless_env = init" using m by (rule boot_serverless)
  show "step serverless_env (Arrive r) init = ensureDbConnected_begin serverless_env r init"
    using m by (simp add: step_Arrive)
qed (simp_all add: begin_disconnected)

lemma count_arrivals:
  "length (connect_calls (run ev es s)) \<le>
     length (connect_calls s) +
     length (filter (\<lambda>e. case e of Arrive r \<Rightarrow> True | Settled out \<Rightarrow> False | Dropped \<Rightarrow> False) es)"
proof (induction es arbitrary: s)
  case Nil
  then show ?case by simp
next
  case (Cons e es)
  have "length (connect_calls (step ev e s)) \<le>
          length (connect_calls s) +
          (case e of Arrive r \<Rightarrow> 1 | Settled out \<Rightarrow> 0 | Dropped \<Rightarrow> 0)"
    by (cases e) (simp_all add: step_def)
  with Cons [of "step ev e s"] show ?case by (cases e) simp_all
qed

section \<open>The cache before an attempt does not matter\<close>

lemma say_cache: "say l as (s\<lparr>cachedDb := x\<rparr>) = (say l as s)\<lparr>cachedDb := x\<rparr>"
  by (simp add: say_def)

lemma connectDB_hint_cache:
  "connectDB_hint e (s\<lparr>cachedDb := x\<rparr>) = (connectDB_hint e s)\<lparr>cachedDb := x\<rparr>"
  by (simp add: connectDB_hint_def say_cache)

lemma mongoose_connect_cache:
  "mongoose_connect u opts (s\<lparr>cachedDb := x\<rparr>) = (mongoose_connect u opts s)\<lparr>cachedDb := x\<rparr>"
  by (simp add: mongoose_connect_def)

lemma strictQuery_cache:
  "s\<lparr>cachedDb := x, strictQuery := b\<rparr> = s\<lparr>strictQuery := b, cachedDb := x\<rparr>"
  by simp

lemma mongoose_settle_cache:
  "mongoose_settle out (s\<lparr>cachedDb := x\<rparr>) = (mongoose_settle out s)\<lparr>cachedDb := x\<rparr>"
  by (simp add: mongoose_settle_def split: sum.split)

lemma connectDB_attempt_cache:
  "connectDB_attempt ev (s\<lparr>cachedDb := x\<rparr>) = (connectDB_attempt ev s)\<lparr>cachedDb := x\<rparr>"
  unfolding connectDB_attempt_def Let_def
  by (simp only: say_cache mongoose_connect_cache strictQuery_cache)

lemma cache_twice: "s\<lparr>cachedDb := x, cachedDb := y\<rparr> = s\<lparr>cachedDb := y\<rparr>"
  by simp

lemma connectDB_finish_forgets_cache:
  "connectDB_finish out (s\<lparr>cachedDb := x\<rparr>) = connectDB_finish out s"
proof (cases out)
  case (Inl e)
  show ?thesis
    unfolding connectDB_finish_def Let_def Inl sum.case
    by (simp only: say_cache connectDB_hint_cache cache_twice)
next
  case (Inr c)
  have r: "\<And>l as t. readyState (say l as t) = readyState t" by simp
  show ?thesis
    unfolding connectDB_finish_def Let_def Inr sum.case
    by (simp only: say_cache cache_twice r state.simps)
qed

lemma connectDB_begin_attempt:
  "cachedDb s = None \<or> readyState s \<noteq> 1 \<Longrightarrow> connectDB_begin ev s = (None, connectDB_attempt ev s)"
  by (auto simp: connectDB_begin_def split: option.split)

section \<open>The error of a failed attempt reaches the console only\<close>

lemma alike_iff:
  "alike s t =
     (cachedDb s = cachedDb t \<and> readyState s = readyState t \<and> strictQuery s = strictQuery t \<and>
      connect_calls s = connect_calls t \<and> connectors s = connectors t \<and>
      waiters s = waiters t \<and> replies s = replies t \<and> listening s = listening t \<and>
      exit_code s = exit_code t)"
  by (cases s; cases t) (auto simp: alike_def)

lemma connectDB_attempt_strictQuery [simp]: "strictQuery (connectDB_attempt ev s) = True"
  by (simp add: connectDB_attempt_def mongoose_connect_def Let_def)

lemma begin_strictQuery:
  "strictQuery (ensureDbConnected_begin ev r s) =
     (if readyState s = 1 \<or> readyState s = 2 then strictQuery s else True)"
  by (simp add: ensureDbConnected_begin_def connectDB_begin_def Let_def split: option.split)

lemma alike_begin:
  assumes "alike s t"
  shows "alike (ensureDbConnected_begin ev r s) (ensureDbConnected_begin ev r t)"
proof -
  consider "readyState s = 1" | "readyState s = 2" | "readyState s \<noteq> 1 \<and> readyState s \<noteq> 2"
    by blast
  then show ?thesis
  proof cases
    case 1
    with assms show ?thesis by (simp add: alike_iff begin_connected begin_strictQuery)
  next
    case 2
    with assms show ?thesis by (simp add: alike_iff begin_connecting begin_strictQuery)
  next
    case 3
    with assms show ?thesis by (simp add: alike_iff begin_disconnected begin_strictQuery)
  qed
qed

lemma same_outcome_cases:
  assumes "same_outcome a b"
  obtains e e' where "a = Inl e" "b = Inl e'" | c where "a = Inr c" "b = Inr c"
  using assms by (cases a; cases b) (auto simp: same_outcome_def same_shape_def)

lemma verdict_same: "same_outcome a b \<Longrightarrow> verdict a = verdict b"
  by (erule same_outcome_cases) (simp_all add: verdict_def)

lemma alike_resume:
  assumes "alike s t" and "same_outcome a b"
  shows "alike (resume ev a c s) (resume ev b c t)"
proof (cases "exit_code s")
  case (Some n)
  with assms(1) have "exit_code t = Some n" by (simp add: alike_iff)
  with Some assms(1) show ?thesis by (simp add: resume_def)
next
  case None
  with assms(1) have n: "exit_code t = None" by (simp add: alike_iff)
  from assms(2) show ?thesis
  proof (cases rule: same_outcome_cases)
    case 1
    with None n assms(1) show ?thesis
      by (cases c) (simp_all add: resume_Middleware resume_Startup alike_iff verdict_def)
  next
    case 2
    with None n assms(1) show ?thesis
      by (cases c)
         (simp_all add: resume_Middleware resume_Startup alike_iff split: option.split)
  qed
qed

lemma alike_wake:
  assumes "alike s t" and "same_outcome a b"
  shows "alike (wake a r s) (wake b r t)"
  using assms by (auto simp: wake_def alike_iff verdict_same)

lemma alike_fold_resume:
  "alike s t \<Longrightarrow> same_outcome a b \<Longrightarrow>
   alike (fold (resume ev a) cs s) (fold (resume ev b) cs t)"
  by (induction cs arbitrary: s t) (simp_all add: alike_resume)

lemma alike_fold_wake:
  "alike s t \<Longrightarrow> same_outcome a b \<Longrightarrow> alike (fold (wake a) ws s) (fold (wake b) ws t)"
  by (induction ws arbitrary: s t) (simp_all add: alike_wake)

lemma alike_settle:
  assumes "alike s t" and "same_outcome a b"
  shows "alike (settle ev a s) (settle ev b t)"
proof -
  have 0: "alike ((mongoose_settle a s)\<lparr>connectors := [], waiters := []\<rparr>)
             ((mongoose_settle b t)\<lparr>connectors := [], waiters := []\<rparr>)"
    using assms(2,1) by (cases rule: same_outcome_cases) (simp_all add: alike_iff)
  have c: "connectors s = connectors t" "waiters s = waiters t"
    using assms(1) by (simp_all add: alike_iff)
  show ?thesis
    unfolding settle_def Let_def c
    by (intro alike_fold_wake alike_fold_resume 0 assms(2))
qed

lemma alike_step:
  assumes "alike s t" and "same_shape a b"
  shows "alike (step ev a s) (step ev b t)"
proof -
  have f: "exit_code s = exit_code t" "listening s = listening t" "connectors s = connectors t"
    using assms(1) by (simp_all add: alike_iff)
  show ?thesis
  proof (cases a)
    case (Arrive r)
    with assms(2) have "b = Arrive r" by (cases b) (simp_all add: same_shape_def)
    with Arrive assms(1) f show ?thesis by (simp add: step_def alike_begin)
  next
    case (Settled x)
    with assms(2) obtain y where b: "b = Settled y" and "same_outcome x y"
      by (cases b) (auto simp: same_shape_def same_outcome_def split: sum.splits)
    with Settled assms(1) f show ?thesis by (simp add: step_def alike_settle)
  next
    case Dropped
    with assms(2) have "b = Dropped"
      by (cases b) (auto simp: same_shape_def split: sum.splits)
    with Dropped assms(1) f show ?thesis by (simp add: step_def alike_iff)
  qed
qed

lemma alike_run:
  "list_all2 same_shape es1 es2 \<Longrightarrow> alike s t \<Longrightarrow> alike (run ev es1 s) (run ev es2 t)"
  by (induction es1 es2 arbitrary: s t rule: list_all2_induct) (simp_all add: alike_step)

section \<open>Startup\<close>

lemma server_v1_exits:
  "is_main ev \<Longrightarrow> NODE_ENV ev \<noteq> Some ''test'' \<Longrightarrow>
   exit_code (server_v1_settled ev (Inl e) (server_v1_begin ev init)) = Some 1"
  by (simp add: server_v1_settled_def server_v1_begin_def connectDB_v1_begin_def
      connectDB_v1_finish_def mongoose_connect_def mongoose_settle_def say_def init_def)

lemma server_v1_listens:
  "is_main ev \<Longrightarrow> NODE_ENV ev \<noteq> Some ''test'' \<Longrightarrow> listen_throws ev = None \<Longrightarrow>
   exit_code (server_v1_settled ev (Inr c) (server_v1_begin ev init)) = None \<and>
   listening (server_v1_settled ev (Inr c) (server_v1_begin ev init))"
  by (simp add: server_v1_settled_def server_v1_begin_def connectDB_v1_begin_def
      connectDB_v1_finish_def mongoose_connect_def mongoose_settle_def say_def init_def Let_def)

lemma server_v1_listen_throws:
  "is_main ev \<Longrightarrow> NODE_ENV ev \<noteq> Some ''test'' \<Longrightarrow> listen_throws ev = Some err \<Longrightarrow>
   exit_code (server_v1_settled ev (Inr c) (server_v1_begin ev init)) = Some 1 \<and>
   \<not> listening (server_v1_settled ev (Inr c) (server_v1_begin ev init))"
  by (simp add: server_v1_settled_def server_v1_begin_def connectDB_v1_begin_def
      connectDB_v1_finish_def mongoose_connect_def mongoose_settle_def say_def init_def Let_def)

lemma local_startup_fails:
  assumes "is_main ev" and "NODE_ENV ev \<noteq> Some ''test''"
  shows "exit_code (step ev (Settled (Inl e)) (boot ev)) = Some 1"
  using assms by (simp add: step_Settled boot_local settle_Startup)

lemma local_startup_succeeds:
  assumes "is_main ev" and "NODE_ENV ev \<noteq> Some ''test''" and "listen_throws ev = None"
  shows "exit_code (step ev (Settled (Inr c)) (boot ev)) = None \<and>
         listening (step ev (Settled (Inr c)) (boot ev)) \<and>
         readyState (step ev (Settled (Inr c)) (boot ev)) = 1 \<and>
         cachedDb (step ev (Settled (Inr c)) (boot ev)) = Some c \<and>
         connectors (step ev (Settled (Inr c)) (boot ev)) = [] \<and>
         waiters (step ev (Settled (Inr c)) (boot ev)) = [] \<and>
         replies (step ev (Settled (Inr c)) (boot ev)) = [] \<and>
         connect_calls (step ev (Settled (Inr c)) (boot ev)) =
           [(or_else (MONGODB_URI ev) fallback_uri, connectDB_options)]"
proof -
  have st: "step ev (Settled (Inr c)) (boot ev) = settle ev (Inr c) (boot ev)"
    using assms by (simp add: step_Settled boot_local)
  have "replies (settle ev (Inr c) (boot ev)) = []"
    using assms by (simp add: settle_def Let_def boot_local resume_Startup)
  then show ?thesis
    using assms unfolding st by (simp add: boot_local settle_Startup)
qed

lemma local_startup_listen_throws:
  assumes "is_main ev" and "NODE_ENV ev \<noteq> Some ''test''" and "listen_throws ev = Some err"
  shows "exit_code (step ev (Settled (Inr c)) (boot ev)) = Some 1 \<and>
         \<not> listening (step ev (Settled (Inr c)) (boot ev))"
  using assms by (simp add: step_Settled boot_local settle_Startup)

lemma step_Dropped: "exit_code s = None \<Longrightarrow> step ev Dropped s = mongoose_drop s"
  by (simp add: step_def)

lemma listening_stays_alive:
  assumes "listening (run ev es (boot ev))"
  shows "exit_code (run ev (es @ es') (boot ev)) = None"
proof -
  have "served (run ev es (boot ev))" by (simp add: served_run inv_boot served_boot)
  with assms have "exit_code (run ev es (boot ev)) = None"
    "Startup \<notin> set (connectors (run ev es (boot ev)))"
    by (simp_all add: served_def)
  then show ?thesis by (simp add: run_keeps_alive)
qed

lemma sample_reconnect:
  "exit_code (run local_env [Settled (Inr cluster), Dropped, Arrive r] (boot local_env)) = None"
  "listening (run local_env [Settled (Inr cluster), Dropped, Arrive r] (boot local_env))"
  "readyState (run local_env [Settled (Inr cluster), Dropped, Arrive r] (boot local_env)) = 2"
  "cachedDb (run local_env [Settled (Inr cluster), Dropped, Arrive r] (boot local_env)) =
     Some cluster"
  "connectors (run local_env [Settled (Inr cluster), Dropped, Arrive r] (boot local_env)) =
     [Middleware r]"
  "waiters (run local_env [Settled (Inr cluster), Dropped, Arrive r] (boot local_env)) = []"
  "replies (run local_env [Settled (Inr cluster), Dropped, Arrive r] (boot local_env)) = []"
  "length (connect_calls
     (run local_env [Settled (Inr cluster), Dropped, Arrive r] (boot local_env))) = 2"
proof -
  have l: "is_main local_env" "NODE_ENV local_env \<noteq> Some ''test''"
    "listen_throws local_env = None"
    by (simp_all add: local_env_def)
  let ?a = "step local_env (Settled (Inr cluster)) (boot local_env)"
  note a = local_startup_succeeds [OF l, of cluster]
  let ?d = "mongoose_drop ?a"
  have d: "step local_env Dropped ?a = ?d" using a by (simp add: step_Dropped)
  have d1: "readyState ?d \<noteq> 1" "readyState ?d \<noteq> 2" using a by simp_all
  have r: "step local_env (Arrive r) ?d = ensureDbConnected_begin local_env r ?d"
    using a by (simp add: step_Arrive)
  have u: "run local_env [Settled (Inr cluster), Dropped, Arrive r] (boot local_env) =
             ensureDbConnected_begin local_env r ?d"
    by (simp add: d r)
  show "exit_code (run local_env [Settled (Inr cluster), Dropped, Arrive r] (boot local_env)) = None"
    "listening (run local_env [Settled (Inr cluster), Dropped, Arrive r] (boot local_env))"
    "readyState (run local_env [Settled (Inr cluster), Dropped, Arrive r] (boot local_env)) = 2"
    "cachedDb (run local_env [Settled (Inr cluster), Dropped, Arrive r] (boot local_env)) =
       Some cluster"
    "connectors (run local_env [Settled (Inr cluster), Dropped, Arrive r] (boot local_env)) =
       [Middleware r]"
    "waiters (run local_env [Settled (Inr cluster), Dropped, Arrive r] (boot local_env)) = []"
    "replies (run local_env [Settled (Inr cluster), Dropped, Arrive r] (boot local_env)) = []"
    "length (connect_calls
       (run local_env [Settled (Inr cluster), Dropped, Arrive r] (boot local_env))) = 2"
    unfolding u using a by (simp_all add: begin_disconnected [OF d1])
qed

lemma sample_dropped:
  "cachedDb (run serverless_env [Arrive r, Settled (Inr cluster), Dropped] (boot serverless_env)) =
     Some cluster"
  "readyState (run serverless_env [Arrive r, Settled (Inr cluster), Dropped] (boot serverless_env)) = 0"
  "exit_code (run serverless_env [Arrive r, Settled (Inr cluster), Dropped] (boot serverless_env)) =
     None"
  "length (connect_calls
     (run serverless_env [Arrive r, Settled (Inr cluster), Dropped] (boot serverless_env))) = 1"
proof -
  let ?s = "ensureDbConnected_begin serverless_env r init"
  let ?t = "settle serverless_env (Inr cluster) ?s"
  have 1: "step serverless_env (Settled (Inr cluster)) ?s = ?t"
    by (simp add: step_Settled sample_first_request)
  have t: "exit_code ?t = None" "cachedDb ?t = Some cluster"
    by (simp_all add: settle_Middleware sample_first_request)
  have u: "run serverless_env [Arrive r, Settled (Inr cluster), Dropped] (boot serverless_env) =
             mongoose_drop ?t"
    using t by (simp add: sample_first_request 1 step_Dropped)
  show "cachedDb (run serverless_env [Arrive r, Settled (Inr cluster), Dropped] (boot serverless_env)) =
     Some cluster"
    "readyState (run serverless_env [Arrive r, Settled (Inr cluster), Dropped] (boot serverless_env)) = 0"
    "exit_code (run serverless_env [Arrive r, Settled (Inr cluster), Dropped] (boot serverless_env)) =
     None"
    "length (connect_calls
       (run serverless_env [Arrive r, Settled (Inr cluster), Dropped] (boot serverless_env))) = 1"
    unfolding u using t by (simp_all add: sample_first_request)
qed

section \<open>The options of every call\<close>

lemma step_calls:
  "set (connect_calls (step ev e s)) \<subseteq>
     insert (or_else (MONGODB_URI ev) fallback_uri, connectDB_options) (set (connect_calls s))"
proof (cases e)
  case (Arrive r)
  have "set (connect_calls (ensureDbConnected_begin ev r s)) \<subseteq>
     insert (or_else (MONGODB_URI ev) fallback_uri, connectDB_options) (set (connect_calls s))"
    by (auto simp: ensureDbConnected_begin_def connectDB_begin_def Let_def split: option.split)
  with Arrive show ?thesis by (auto simp: step_def)
next
  case (Settled out)
  then show ?thesis by (auto simp: step_def)
next
  case Dropped
  then show ?thesis by (auto simp: step_def)
qed

lemma run_calls:
  "set (connect_calls (run ev es s)) \<subseteq>
     insert (or_else (MONGODB_URI ev) fallback_uri, connectDB_options) (set (connect_calls s))"
proof (induction es arbitrary: s)
  case Nil
  then show ?case by auto
next
  case (Cons e es)
  from Cons [of "step ev e s"] step_calls [of ev e s] show ?case by auto
qed

lemma boot_calls:
  "set (connect_calls (boot ev)) \<subseteq> {(or_else (MONGODB_URI ev) fallback_uri, connectDB_options)}"
proof (cases "is_main ev \<and> NODE_ENV ev \<noteq> Some ''test''")
  case True
  then show ?thesis by (simp add: boot_local)
next
  case False
  then have "boot ev = init" by (auto simp: boot_def local_server_begin_def)
  then show ?thesis by simp
qed

lemma all_calls:
  "map snd (connect_calls (run ev es (boot ev))) =
     replicate (length (connect_calls (run ev es (boot ev)))) connectDB_options"
proof -
  have "\<forall>y\<in>set (map snd (connect_calls (run ev es (boot ev)))). y = connectDB_options"
    using run_calls [of ev es "boot ev"] boot_calls [of ev] by fastforce
  from replicate_length_same [OF this] show ?thesis by simp
qed

section \<open>The claims\<close>

text \<open>
  C1. Callers that arrive while the readiness integer is 2 start no connection attempt of
  their own. In every state the event loop reaches with the readiness integer at 2 (and
  requests able to arrive), exactly one caller is suspended in \<^verbatim>\<open>connectDB\<close>;
  any number of requests arriving then leave the list of \<^verbatim>\<open>mongoose.connect\<close>
  calls as it is and only join the requests waiting on the connection; and when the
  attempt settles, the request that started it, the requests already waiting and the new
  arrivals all get the same reply, \<^verbatim>\<open>next()\<close> on success and the 500 response
  on failure, still without a further call of \<^verbatim>\<open>mongoose.connect\<close>. In any
  state at all with the readiness integer at 2, the middleware makes no call, gives no
  reply yet and adds the request to those waiting.
\<close>

theorem single_flight:
  assumes "s = run ev es (boot ev)" and "readyState s = 2" and "is_main ev \<longrightarrow> listening s"
  shows "(\<exists>r0. connectors s = [Middleware r0] \<and>
            connectors (run ev (map Arrive rs) s) = [Middleware r0] \<and>
            connect_calls (run ev (map Arrive rs) s) = connect_calls s \<and>
            waiters (run ev (map Arrive rs) s) = waiters s @ rs \<and>
            connect_calls (run ev (map Arrive rs @ [Settled out]) s) = connect_calls s \<and>
            replies (run ev (map Arrive rs @ [Settled out]) s) =
              replies s @ map (\<lambda>r. (r, verdict out)) (r0 # waiters s @ rs)) \<and>
         (readyState t = 2 \<longrightarrow>
            connect_calls (ensureDbConnected_begin ev r t) = connect_calls t \<and>
            connectors (ensureDbConnected_begin ev r t) = connectors t \<and>
            waiters (ensureDbConnected_begin ev r t) = waiters t @ [r] \<and>
            replies (ensureDbConnected_begin ev r t) = replies t)"
proof -
  have i: "inv ev s" using assms(1) by (simp add: inv_reachable)
  with assms(2,3) obtain r0 where c: "connectors s = [Middleware r0]"
    by (auto simp: inv_def)
  with i have x: "exit_code s = None" by (simp add: inv_def)
  let ?t = "run ev (map Arrive rs) s"
  note a = arrivals_connecting [OF assms(2) x assms(3), of rs]
  have t: "step ev (Settled out) ?t = settle ev out ?t"
    using a c by (simp add: step_Settled)
  have "replies (settle ev out ?t) = replies ?t @ map (\<lambda>r. (r, verdict out)) (r0 # waiters ?t)"
    using a c by (intro settle_Middleware) simp_all
  with a c t show ?thesis by (simp add: begin_connecting)
qed

theorem single_flight_witness:
  "readyState (run serverless_env [Arrive 0] (boot serverless_env)) = 2 \<and>
   length (connect_calls
     (run serverless_env (Arrive 0 # map Arrive [1, 2, 3] @ [Settled (Inl refused)])
        (boot serverless_env))) = 1 \<and>
   replies
     (run serverless_env (Arrive 0 # map Arrive [1, 2, 3] @ [Settled (Inl refused)])
        (boot serverless_env)) =
     [(0, Response 500 failure_body), (1, Response 500 failure_body),
      (2, Response 500 failure_body), (3, Response 500 failure_body)] \<and>
   waiters (ensureDbConnected_begin serverless_env 1
     (run serverless_env [Arrive 0] (boot serverless_env))) = [1]"
proof -
  let ?s = "run serverless_env [Arrive 0] (boot serverless_env)"
  have m: "\<not> is_main serverless_env" by (simp add: serverless_env_def)
  have f: "readyState ?s = 2" "length (connect_calls ?s) = 1"
    "waiters ?s = []" "replies ?s = []" "connectors ?s = [Middleware 0]"
    by (simp_all add: sample_first_request)
  have l: "is_main serverless_env \<longrightarrow> listening ?s" using m by simp
  from single_flight [OF refl f(1) l, of "[1, 2, 3]" "Inl refused" ?s 1] f
  show ?thesis by (simp add: verdict_def)
qed

text \<open>
  C2, as stated, fails once the connection is lost. After a successful connect the
  handle stays cached, but when the client has left Connected the readiness integer is
  0, and the next call of the ensure-connected operation calls
  \<^verbatim>\<open>mongoose.connect\<close> again: one call before, two after.
\<close>

theorem cached_then_dropped:
  "cachedDb (run serverless_env [Arrive 0, Settled (Inr cluster), Dropped] (boot serverless_env)) =
     Some cluster \<and>
   readyState (run serverless_env [Arrive 0, Settled (Inr cluster), Dropped] (boot serverless_env)) =
     0 \<and>
   length (connect_calls
     (run serverless_env [Arrive 0, Settled (Inr cluster), Dropped] (boot serverless_env))) = 1 \<and>
   length (connect_calls
     (run serverless_env [Arrive 0, Settled (Inr cluster), Dropped, Arrive 1]
        (boot serverless_env))) = 2"
proof -
  let ?d = "run serverless_env [Arrive 0, Settled (Inr cluster), Dropped] (boot serverless_env)"
  note d = sample_dropped [of 0]
  have m: "\<not> is_main serverless_env" by (simp add: serverless_env_def)
  have "step serverless_env (Arrive 1) ?d = ensureDbConnected_begin serverless_env 1 ?d"
    using d m by (simp add: step_Arrive del: run_Cons run_Nil)
  moreover have "length (connect_calls (ensureDbConnected_begin serverless_env 1 ?d)) = 2"
    using d by (simp add: begin_disconnected del: run_Cons run_Nil)
  moreover have "run serverless_env [Arrive 0, Settled (Inr cluster), Dropped, Arrive 1]
        (boot serverless_env) = step serverless_env (Arrive 1) ?d"
    by simp
  ultimately show ?thesis using d by (simp del: run_Cons run_Nil)
qed

text \<open>
  C2, amended. After a successful connect the cached handle is reused for as long as the
  connection is not lost. When the attempt in flight succeeds with a connection \<open>c\<close>,
  then after any further events other than the loss of the connection the cache holds
  \<open>c\<close>, the readiness integer is 1, no call of \<^verbatim>\<open>mongoose.connect\<close> has been
  added, \<^verbatim>\<open>connectDB\<close> returns \<open>c\<close> at once without a new call, and (in a
  process that is alive) every request that arrives is answered with \<^verbatim>\<open>next()\<close>
  by the middleware. In any state at all with the readiness integer at 1, the middleware
  calls \<^verbatim>\<open>next()\<close> and leaves the calls, the cache and the readiness integer as
  they are; with a cached handle as well, \<^verbatim>\<open>connectDB\<close> returns that handle and
  makes no call.
\<close>

theorem cached_after_success:
  assumes "s = run ev es (boot ev)" and "connectors s \<noteq> []" and "Dropped \<notin> set es'"
  shows "cachedDb (run ev (Settled (Inr c) # es') s) = Some c \<and>
         readyState (run ev (Settled (Inr c) # es') s) = 1 \<and>
         connect_calls (run ev (Settled (Inr c) # es') s) = connect_calls s \<and>
         fst (connectDB_begin ev (run ev (Settled (Inr c) # es') s)) = Some c \<and>
         connect_calls (snd (connectDB_begin ev (run ev (Settled (Inr c) # es') s))) =
           connect_calls s \<and>
         (exit_code (step ev (Settled (Inr c)) s) = None \<longrightarrow>
            replies (run ev (Settled (Inr c) # map Arrive rs) s) =
              replies (step ev (Settled (Inr c)) s) @ map (\<lambda>r. (r, Next)) rs) \<and>
         (readyState t = 1 \<longrightarrow>
            connect_calls (ensureDbConnected_begin ev r t) = connect_calls t \<and>
            readyState (ensureDbConnected_begin ev r t) = 1 \<and>
            cachedDb (ensureDbConnected_begin ev r t) = cachedDb t \<and>
            replies (ensureDbConnected_begin ev r t) = replies t @ [(r, Next)]) \<and>
         (cachedDb t = Some c \<and> readyState t = 1 \<longrightarrow>
            fst (connectDB_begin ev t) = Some c \<and>
            connect_calls (snd (connectDB_begin ev t)) = connect_calls t)"
proof -
  note f = in_flight [OF assms(1,2)]
  let ?t = "step ev (Settled (Inr c)) s"
  have t: "?t = settle ev (Inr c) s" using f assms(2) by (simp add: step_Settled)
  have t1: "readyState ?t = 1" "connectors ?t = []" "connect_calls ?t = connect_calls s"
    by (simp_all add: t)
  have t2: "cachedDb ?t = Some c"
    using f unfolding t by (auto simp: settle_Middleware settle_Startup)
  have t3: "is_main ev \<longrightarrow> listening ?t" if "exit_code ?t = None"
    using f that unfolding t
    by (auto simp: settle_Middleware settle_Startup split: option.splits)
  note r = run_settled_state [OF t1(1,2) assms(3), of ev]
  have "cachedDb (run ev es' ?t) = Some c" "readyState (run ev es' ?t) = 1"
    using r t2 by simp_all
  note b = connectDB_begin_cached [OF this]
  have "replies (run ev (map Arrive rs) ?t) = replies ?t @ map (\<lambda>r. (r, Next)) rs"
    if x: "exit_code ?t = None"
    using arrivals_connected [OF t1(1) x t3 [OF x], of rs] by simp
  with b r t1 t2 show ?thesis by (simp add: begin_connected connectDB_begin_cached)
qed

theorem cached_after_success_witness:
  "connectors (run serverless_env [Arrive 0] (boot serverless_env)) \<noteq> [] \<and>
   Dropped \<notin> set [Arrive 1, Arrive 2] \<and>
   exit_code (step serverless_env (Settled (Inr cluster))
     (run serverless_env [Arrive 0] (boot serverless_env))) = None \<and>
   length (connect_calls
     (run serverless_env [Arrive 0, Settled (Inr cluster), Arrive 1, Arrive 2]
        (boot serverless_env))) = 1 \<and>
   fst (connectDB_begin serverless_env
     (run serverless_env [Arrive 0, Settled (Inr cluster), Arrive 1, Arrive 2]
        (boot serverless_env))) = Some cluster \<and>
   replies
     (run serverless_env [Arrive 0, Settled (Inr cluster), Arrive 1, Arrive 2]
        (boot serverless_env)) = [(0, Next), (1, Next), (2, Next)] \<and>
   cachedDb (run serverless_env [Arrive 0, Settled (Inr cluster)] (boot serverless_env)) =
     Some cluster \<and>
   readyState (run serverless_env [Arrive 0, Settled (Inr cluster)] (boot serverless_env)) = 1 \<and>
   replies (ensureDbConnected_begin serverless_env 1
     (run serverless_env [Arrive 0, Settled (Inr cluster)] (boot serverless_env))) =
     [(0, Next), (1, Next)]"
proof -
  let ?s = "run serverless_env [Arrive 0] (boot serverless_env)"
  let ?t = "run serverless_env [Arrive 0, Settled (Inr cluster)] (boot serverless_env)"
  have f: "connectors ?s = [Middleware 0]" "exit_code ?s = None" "waiters ?s = []"
    "replies ?s = []" "length (connect_calls ?s) = 1"
    by (simp_all add: sample_first_request)
  have c: "connectors ?s \<noteq> []" using f by simp
  have d: "Dropped \<notin> set [Arrive 1, Arrive 2]" "Dropped \<notin> set []" by simp_all
  have r: "replies (step serverless_env (Settled (Inr cluster)) ?s) = [(0, Next)]"
    and x: "exit_code (step serverless_env (Settled (Inr cluster)) ?s) = None"
    using f by (simp_all add: step_Settled settle_Middleware verdict_def del: run_Cons run_Nil)
  have u: "?t = step serverless_env (Settled (Inr cluster)) ?s" by simp
  note a = cached_after_success [OF refl c d(1), of cluster "[1, 2]" ?t 1]
  note b = cached_after_success [OF refl c d(2), of cluster "[]" ?t 1]
  from b have "cachedDb ?t = Some cluster" "readyState ?t = 1" by simp_all
  with a f r x u show ?thesis by simp
qed

text \<open>
  C6. Every call of \<^verbatim>\<open>mongoose.connect\<close> made by \<^verbatim>\<open>connectDB\<close> carries the
  timeouts of the documentation. The attempt \<^verbatim>\<open>connectDB\<close> makes adds exactly one
  call, with the options whose server-selection timeout is 5000 ms, socket timeout
  45000 ms and connect timeout 10000 ms; \<^verbatim>\<open>connectDB\<close> makes this attempt whenever
  the cache is empty or the readiness integer is not 1, and otherwise returns the cached
  handle without a call; the part of \<^verbatim>\<open>connectDB\<close> that runs after the attempt
  makes no call. The first request of a process in the per-request mode, and the startup
  of a process run directly, make such a call; and over any run of the event loop every
  call made carries these options.
\<close>

theorem connectDB_timeouts:
  "connect_calls (connectDB_attempt ev s) =
     connect_calls s @ [(or_else (MONGODB_URI ev) fallback_uri, connectDB_options)] \<and>
   json_field connectDB_options ''serverSelectionTimeoutMS'' = Some (JNum 5000) \<and>
   json_field connectDB_options ''socketTimeoutMS'' = Some (JNum 45000) \<and>
   json_field connectDB_options ''connectTimeoutMS'' = Some (JNum 10000) \<and>
   (cachedDb s = None \<or> readyState s \<noteq> 1 \<longrightarrow>
      connectDB_begin ev s = (None, connectDB_attempt ev s)) \<and>
   (cachedDb s = Some c \<and> readyState s = 1 \<longrightarrow>
      fst (connectDB_begin ev s) = Some c \<and>
      connect_calls (snd (connectDB_begin ev s)) = connect_calls s) \<and>
   connect_calls (snd (connectDB_finish out s)) = connect_calls s \<and>
   (\<not> is_main ev \<longrightarrow>
      connect_calls (run ev [Arrive r] (boot ev)) =
        [(or_else (MONGODB_URI ev) fallback_uri, connectDB_options)]) \<and>
   (is_main ev \<and> NODE_ENV ev \<noteq> Some ''test'' \<longrightarrow>
      connect_calls (boot ev) =
        [(or_else (MONGODB_URI ev) fallback_uri, connectDB_options)]) \<and>
   map snd (connect_calls (run ev es (boot ev))) =
     replicate (length (connect_calls (run ev es (boot ev)))) connectDB_options"
proof -
  have 1: "connect_calls (run ev [Arrive r] (boot ev)) =
        [(or_else (MONGODB_URI ev) fallback_uri, connectDB_options)]" if "\<not> is_main ev"
    using that by (simp add: boot_serverless step_Arrive begin_disconnected)
  have 2: "json_field connectDB_options ''serverSelectionTimeoutMS'' = Some (JNum 5000)"
    "json_field connectDB_options ''socketTimeoutMS'' = Some (JNum 45000)"
    "json_field connectDB_options ''connectTimeoutMS'' = Some (JNum 10000)"
    by (simp_all add: connectDB_options_def json_field_def)
  from 1 2 all_calls [of ev es] show ?thesis
    by (simp add: connectDB_begin_attempt connectDB_begin_cached boot_local)
qed

theorem connectDB_timeouts_witness:
  "cachedDb init = None \<and>
   connect_calls (snd (connectDB_begin serverless_env init)) =
     [(''mongodb+srv://cluster0.example.net/campus_recruitment'', connectDB_options)] \<and>
   map (\<lambda>call. json_field (snd call) ''serverSelectionTimeoutMS'')
     (connect_calls (snd (connectDB_begin serverless_env init))) = [Some (JNum 5000)] \<and>
   map (\<lambda>call. json_field (snd call) ''socketTimeoutMS'')
     (connect_calls (snd (connectDB_begin serverless_env init))) = [Some (JNum 45000)] \<and>
   map (\<lambda>call. json_field (snd call) ''connectTimeoutMS'')
     (connect_calls (snd (connectDB_begin serverless_env init))) = [Some (JNum 10000)] \<and>
   \<not> is_main serverless_env \<and>
   length (connect_calls (run serverless_env [Arrive 0] (boot serverless_env))) = 1 \<and>
   is_main local_env \<and> NODE_ENV local_env \<noteq> Some ''test'' \<and>
   length (connect_calls (boot local_env)) = 1 \<and>
   cachedDb (init\<lparr>cachedDb := Some cluster, readyState := 1\<rparr>) = Some cluster \<and>
   readyState (init\<lparr>cachedDb := Some cluster, readyState := 1\<rparr>) = 1 \<and>
   connect_calls (snd (connectDB_begin serverless_env
     (init\<lparr>cachedDb := Some cluster, readyState := 1\<rparr>))) = []"
proof -
  note a = connectDB_timeouts [of serverless_env init cluster "Inr cluster" 0 "[]"]
  note b = connectDB_timeouts [of local_env init cluster "Inr cluster" 0 "[]"]
  note c = connectDB_timeouts [of serverless_env "init\<lparr>cachedDb := Some cluster, readyState := 1\<rparr>"
      cluster "Inr cluster" 0 "[]"]
  have m: "\<not> is_main serverless_env"
    "or_else (MONGODB_URI serverless_env) fallback_uri =
       ''mongodb+srv://cluster0.example.net/campus_recruitment''"
    by (simp_all add: serverless_env_def or_else_def)
  have l: "is_main local_env" "NODE_ENV local_env \<noteq> Some ''test''"
    by (simp_all add: local_env_def)
  have i: "cachedDb init = None"
    "cachedDb (init\<lparr>cachedDb := Some cluster, readyState := 1\<rparr>) = Some cluster"
    "readyState (init\<lparr>cachedDb := Some cluster, readyState := 1\<rparr>) = 1"
    "connect_calls (init\<lparr>cachedDb := Some cluster, readyState := 1\<rparr>) = []"
    by simp_all
  from a m i have 1: "connect_calls (snd (connectDB_begin serverless_env init)) =
     [(''mongodb+srv://cluster0.example.net/campus_recruitment'', connectDB_options)]"
    by simp
  from a m have 2: "length (connect_calls (run serverless_env [Arrive 0] (boot serverless_env))) = 1"
    by simp
  from b l have 3: "length (connect_calls (boot local_env)) = 1" by simp
  from c i have 4: "connect_calls (snd (connectDB_begin serverless_env
     (init\<lparr>cachedDb := Some cluster, readyState := 1\<rparr>))) = []"
    by simp
  from a have 5: "json_field connectDB_options ''serverSelectionTimeoutMS'' = Some (JNum 5000)"
    "json_field connectDB_options ''socketTimeoutMS'' = Some (JNum 45000)"
    "json_field connectDB_options ''connectTimeoutMS'' = Some (JNum 10000)"
    by simp_all
  from 1 2 3 4 5 m l i show ?thesis by simp
qed

text \<open>
  C7. On a failed attempt \<^verbatim>\<open>connectDB\<close> logs the message, the code and the name
  of the error, then the line of the failure kind (DNS resolution, connection refused,
  server or authentication error, server-selection timeout; no line for any other
  error), clears the cache and throws the same error again. Neither it nor the
  middleware touches the exit code, and a process in the per-request deployment mode
  never exits, whatever happens.
\<close>

theorem connectDB_failure_log:
  "connectDB_finish (Inl e) s =
     (Inl e,
      s\<lparr>cachedDb := None,
        console := console s @
          [(Error, [Txt ''[connectDB] Database connection failed:'']),
           (Error, [Txt ''   Error:'', Txt (err_message e)]),
           (Error, [Txt ''   Code:'', Code (err_code e)]),
           (Error, [Txt ''   Name:'', Txt (err_name e)])] @
          kind_line (classify e) @
          [(Error, [Txt ''   Server will start but database operations will fail''])]\<rparr>) \<and>
   exit_code (snd (connectDB_finish (Inl e) s)) = exit_code s \<and>
   exit_code (ensureDbConnected_connected r (Inl e) s) = exit_code s \<and>
   exit_code (ensureDbConnected_waited r (Inl e) s) = exit_code s \<and>
   (\<not> is_main ev \<longrightarrow> exit_code (run ev es (boot ev)) = None)"
proof -
  have "connectDB_finish (Inl e) s =
     (Inl e,
      s\<lparr>cachedDb := None,
        console := console s @
          [(Error, [Txt ''[connectDB] Database connection failed:'']),
           (Error, [Txt ''   Error:'', Txt (err_message e)]),
           (Error, [Txt ''   Code:'', Code (err_code e)]),
           (Error, [Txt ''   Name:'', Txt (err_name e)])] @
          kind_line (classify e) @
          [(Error, [Txt ''   Server will start but database operations will fail''])]\<rparr>)"
    by (simp add: connectDB_finish_def Let_def say_def connectDB_hint_def classify_def
        kind_line_def)
  then show ?thesis by (simp add: serverless_never_exits)
qed

theorem connectDB_failure_log_witness:
  "\<not> is_main serverless_env \<and>
   exit_code (run serverless_env [Arrive 7, Settled (Inl refused)] (boot serverless_env)) = None \<and>
   classify refused = ConnectionRefused \<and> classify not_found = DNSResolution"
  using connectDB_failure_log [of refused init 7 serverless_env "[Arrive 7, Settled (Inl refused)]"]
  by (simp add: serverless_env_def classify_def refused_def not_found_def)

text \<open>
  C3. A failed attempt clears the cache and is not retried. \<^verbatim>\<open>connectDB\<close> throws
  the error it caught, leaves the cache empty and makes no further call of
  \<^verbatim>\<open>mongoose.connect\<close>; called again right after, it starts a new attempt. In
  the event loop, when the attempt a request started fails, the cache is empty, the
  readiness integer is 0, nobody is suspended and the calls are as before; the next
  request that arrives starts a new attempt: one more call of
  \<^verbatim>\<open>mongoose.connect\<close>, with that request suspended on it.
\<close>

theorem failure_clears_cache:
  assumes "s = run ev es (boot ev)" and "connectors s = [Middleware r0]"
  shows "fst (connectDB_finish (Inl e) t) = Inl e \<and>
         cachedDb (snd (connectDB_finish (Inl e) t)) = None \<and>
         connect_calls (snd (connectDB_finish (Inl e) t)) = connect_calls t \<and>
         fst (connectDB_begin ev (snd (connectDB_finish (Inl e) t))) = None \<and>
         connect_calls (snd (connectDB_begin ev (snd (connectDB_finish (Inl e) t)))) =
           connect_calls t @ [(or_else (MONGODB_URI ev) fallback_uri, connectDB_options)] \<and>
         cachedDb (step ev (Settled (Inl e)) s) = None \<and>
         readyState (step ev (Settled (Inl e)) s) = 0 \<and>
         connectors (step ev (Settled (Inl e)) s) = [] \<and>
         connect_calls (step ev (Settled (Inl e)) s) = connect_calls s \<and>
         readyState (run ev [Settled (Inl e), Arrive r] s) = 2 \<and>
         connectors (run ev [Settled (Inl e), Arrive r] s) = [Middleware r] \<and>
         connect_calls (run ev [Settled (Inl e), Arrive r] s) =
           connect_calls s @ [(or_else (MONGODB_URI ev) fallback_uri, connectDB_options)]"
proof -
  have c: "connectors s \<noteq> []" using assms(2) by simp
  note f = in_flight [OF assms(1) c]
  have l: "is_main ev \<longrightarrow> listening s" using f assms(2) by simp
  let ?t = "step ev (Settled (Inl e)) s"
  have t: "?t = settle ev (Inl e) s" using f c by (simp add: step_Settled)
  have t1: "readyState ?t = 0" "connectors ?t = []" "connect_calls ?t = connect_calls s"
    by (simp_all add: t)
  have t2: "cachedDb ?t = None" "exit_code ?t = None" "listening ?t = listening s"
    using f assms(2) unfolding t by (simp_all add: settle_Middleware)
  have a: "step ev (Arrive r) ?t = ensureDbConnected_begin ev r ?t"
    using t2 l by (simp add: step_Arrive)
  have b: "connectDB_begin ev (snd (connectDB_finish (Inl e) t)) =
             (None, connectDB_attempt ev (snd (connectDB_finish (Inl e) t)))"
    by (rule connectDB_begin_attempt) simp
  show ?thesis using t1 t2 by (simp add: a b begin_disconnected)
qed

theorem failure_clears_cache_witness:
  "connectors (run serverless_env [Arrive 0] (boot serverless_env)) = [Middleware 0] \<and>
   cachedDb (run serverless_env [Arrive 0, Settled (Inl refused)] (boot serverless_env)) = None \<and>
   length (connect_calls
     (run serverless_env [Arrive 0, Settled (Inl refused)] (boot serverless_env))) = 1 \<and>
   length (connect_calls
     (run serverless_env [Arrive 0, Settled (Inl refused), Arrive 1] (boot serverless_env))) = 2"
proof -
  let ?s = "run serverless_env [Arrive 0] (boot serverless_env)"
  have c: "connectors ?s = [Middleware 0]"
    and n: "length (connect_calls ?s) = 1"
    by (simp_all add: sample_first_request)
  from failure_clears_cache [OF refl c, of refused init 1] n c show ?thesis by simp
qed

text \<open>
  C8. One invocation makes at most one attempt. The settling of an attempt never calls
  \<^verbatim>\<open>mongoose.connect\<close>, whatever the outcome; the arrival of a request calls it
  at most once; so an invocation, from its arrival to the settling of its attempt, adds
  at most one call, and exactly one when it starts with the readiness integer neither 1
  nor 2. Over any run the calls added are at most the requests that arrived: a new
  attempt is only ever made for a new request.
\<close>

theorem one_attempt_per_call:
  "connect_calls (step ev (Settled out) s) = connect_calls s \<and>
   length (connect_calls (step ev (Arrive r) s)) \<le> length (connect_calls s) + 1 \<and>
   length (connect_calls (run ev [Arrive r, Settled out] s)) \<le> length (connect_calls s) + 1 \<and>
   length (connect_calls (run ev es s)) \<le>
     length (connect_calls s) +
     length (filter (\<lambda>e. case e of Arrive r \<Rightarrow> True | Settled out \<Rightarrow> False | Dropped \<Rightarrow> False)
       es) \<and>
   (readyState s \<noteq> 1 \<and> readyState s \<noteq> 2 \<and> exit_code s = None \<and>
    (is_main ev \<longrightarrow> listening s) \<longrightarrow>
      connect_calls (run ev [Arrive r, Settled out] s) =
        connect_calls s @ [(or_else (MONGODB_URI ev) fallback_uri, connectDB_options)])"
proof -
  have 1: "connect_calls (step ev (Settled out) s) = connect_calls s"
    by (rule step_connect_calls_Settled)
  have 2: "length (connect_calls (step ev (Arrive r) s)) \<le> length (connect_calls s) + 1"
    by (simp add: step_def)
  have 3: "length (connect_calls (run ev [Arrive r, Settled out] s)) \<le>
             length (connect_calls s) + 1"
    using 2 by (simp add: step_connect_calls_Settled)
  have 4: "connect_calls (run ev [Arrive r, Settled out] s) =
        connect_calls s @ [(or_else (MONGODB_URI ev) fallback_uri, connectDB_options)]"
    if "readyState s \<noteq> 1" "readyState s \<noteq> 2" "exit_code s = None" "is_main ev \<longrightarrow> listening s"
    using that by (simp add: step_connect_calls_Settled step_Arrive begin_disconnected)
  from 1 2 3 4 count_arrivals [of ev es s] show ?thesis by blast
qed

theorem one_attempt_per_call_witness:
  "readyState init \<noteq> 1 \<and> readyState init \<noteq> 2 \<and> exit_code init = None \<and>
   \<not> is_main serverless_env \<and>
   length (connect_calls (run serverless_env [Arrive 0, Settled (Inl refused)] init)) = 1"
proof -
  have m: "\<not> is_main serverless_env" by (simp add: serverless_env_def)
  have h: "readyState init \<noteq> 1 \<and> readyState init \<noteq> 2 \<and> exit_code init = None \<and>
    (is_main serverless_env \<longrightarrow> listening init)"
    using m by simp
  from one_attempt_per_call [of serverless_env "Inl refused" init 0 "[]"] h m
  show ?thesis by simp
qed

text \<open>
  C9. The fast path of \<^verbatim>\<open>connectDB\<close> needs both a cached handle and the
  readiness integer at 1. With a cached handle and the readiness integer not 1,
  \<^verbatim>\<open>connectDB\<close> starts a new attempt, a successful attempt overwrites the cache,
  and the whole call gives the same result and state as it gives with an empty cache.
\<close>

theorem fast_path_needs_both:
  "(fst (connectDB_begin ev s) = None) = (cachedDb s = None \<or> readyState s \<noteq> 1) \<and>
   (cachedDb s = Some c \<and> readyState s \<noteq> 1 \<longrightarrow>
      connectDB_begin ev s = (None, connectDB_attempt ev s) \<and>
      connect_calls (connectDB_attempt ev s) =
        connect_calls s @ [(or_else (MONGODB_URI ev) fallback_uri, connectDB_options)] \<and>
      cachedDb (snd (connectDB_finish (Inr c') (mongoose_settle (Inr c') (connectDB_attempt ev s)))) =
        Some c' \<and>
      connectDB_finish out (mongoose_settle out (snd (connectDB_begin ev s))) =
        connectDB_finish out (mongoose_settle out (snd (connectDB_begin ev (s\<lparr>cachedDb := None\<rparr>)))))"
proof -
  have 1: "(fst (connectDB_begin ev s) = None) = (cachedDb s = None \<or> readyState s \<noteq> 1)"
    by (simp add: connectDB_begin_def split: option.split)
  have 2: "connectDB_finish out (mongoose_settle out (snd (connectDB_begin ev s))) =
        connectDB_finish out (mongoose_settle out (snd (connectDB_begin ev (s\<lparr>cachedDb := None\<rparr>))))"
    if "readyState s \<noteq> 1"
    using that
    by (simp add: connectDB_begin_attempt connectDB_attempt_cache mongoose_settle_cache
        connectDB_finish_forgets_cache)
  show ?thesis using 1 2 by (simp add: connectDB_begin_attempt)
qed

theorem fast_path_needs_both_witness:
  "cachedDb (init\<lparr>cachedDb := Some cluster\<rparr>) = Some cluster \<and>
   readyState (init\<lparr>cachedDb := Some cluster\<rparr>) \<noteq> 1 \<and>
   fst (connectDB_begin serverless_env (init\<lparr>cachedDb := Some cluster\<rparr>)) = None \<and>
   length (connect_calls (snd (connectDB_begin serverless_env (init\<lparr>cachedDb := Some cluster\<rparr>)))) = 1"
  using fast_path_needs_both [of serverless_env "init\<lparr>cachedDb := Some cluster\<rparr>" cluster cluster "Inr cluster"]
  by (simp add: init_def)

text \<open>
  C10. The body of the 500 response does not depend on the error. Both failing paths of
  the middleware, after \<^verbatim>\<open>connectDB\<close> threw and after the wait on the
  connection's events was rejected, reply with status 500 and the constant body, the
  same for any two errors; and two runs of the event loop that differ only in the
  errors of their failed attempts give the same replies.
\<close>

theorem constant_failure_body:
  "replies (ensureDbConnected_connected r (Inl e) s) =
     replies s @ [(r, Response 500 failure_body)] \<and>
   replies (ensureDbConnected_waited r (Inl e) s) =
     replies s @ [(r, Response 500 failure_body)] \<and>
   replies (ensureDbConnected_connected r (Inl e) s) =
     replies (ensureDbConnected_connected r (Inl e') s) \<and>
   replies (ensureDbConnected_waited r (Inl e) s) =
     replies (ensureDbConnected_waited r (Inl e') s) \<and>
   (list_all2 same_shape es1 es2 \<longrightarrow> replies (run ev es1 s) = replies (run ev es2 s))"
proof -
  have "alike s s" by (simp add: alike_iff)
  then have "list_all2 same_shape es1 es2 \<Longrightarrow> alike (run ev es1 s) (run ev es2 s)"
    by (rule alike_run [rotated])
  then show ?thesis by (auto simp: alike_iff verdict_def)
qed

theorem constant_failure_body_witness:
  "list_all2 same_shape [Arrive 0, Arrive 1, Settled (Inl refused)]
     [Arrive 0, Arrive 1, Settled (Inl not_found)] \<and>
   refused \<noteq> not_found \<and>
   replies (run serverless_env [Arrive 0, Arrive 1, Settled (Inl refused)] init) =
     replies (run serverless_env [Arrive 0, Arrive 1, Settled (Inl not_found)] init)"
proof -
  have h: "list_all2 same_shape [Arrive 0, Arrive 1, Settled (Inl refused)]
     [Arrive 0, Arrive 1, Settled (Inl not_found)]"
    by (simp add: same_shape_def)
  have d: "refused \<noteq> not_found" by (simp add: refused_def not_found_def)
  from constant_failure_body [of 0 refused init not_found
      "[Arrive 0, Arrive 1, Settled (Inl refused)]"
      "[Arrive 0, Arrive 1, Settled (Inl not_found)]" serverless_env] h d
  show ?thesis by blast
qed

text \<open>
  C4. A failed connection is fatal at startup only. A process run directly exits with
  code 1 when the attempt of its startup fails, in the server with the middleware as in
  the first variant of the server (and also when \<^verbatim>\<open>app.listen\<close> throws during
  that startup). The catch blocks of \<^verbatim>\<open>connectDB\<close> and of the middleware leave
  the exit code alone; from any state that is alive and past the startup no event makes
  the process exit; once a process listens, nothing makes it exit; a process in the
  per-request deployment mode never exits. In either mode, when an attempt started by a
  request fails, that request and the requests waiting on the attempt get the 500
  response, the process stays alive, and the next request starts a new attempt.
\<close>

theorem fatal_only_at_startup:
  "(is_main ev \<and> NODE_ENV ev \<noteq> Some ''test'' \<longrightarrow>
      exit_code (step ev (Settled (Inl e)) (boot ev)) = Some 1 \<and>
      exit_code (server_v1_settled ev (Inl e) (server_v1_begin ev init)) = Some 1) \<and>
   (is_main ev \<and> NODE_ENV ev \<noteq> Some ''test'' \<and> listen_throws ev = Some err \<longrightarrow>
      exit_code (step ev (Settled (Inr c)) (boot ev)) = Some 1 \<and>
      \<not> listening (step ev (Settled (Inr c)) (boot ev)) \<and>
      exit_code (server_v1_settled ev (Inr c) (server_v1_begin ev init)) = Some 1 \<and>
      \<not> listening (server_v1_settled ev (Inr c) (server_v1_begin ev init))) \<and>
   exit_code (snd (connectDB_finish (Inl e) t)) = exit_code t \<and>
   exit_code (ensureDbConnected_connected r (Inl e) t) = exit_code t \<and>
   exit_code (ensureDbConnected_waited r (Inl e) t) = exit_code t \<and>
   (exit_code t = None \<and> Startup \<notin> set (connectors t) \<longrightarrow> exit_code (run ev es' t) = None) \<and>
   (listening (run ev es (boot ev)) \<longrightarrow> exit_code (run ev (es @ es') (boot ev)) = None) \<and>
   (\<not> is_main ev \<longrightarrow> exit_code (run ev es (boot ev)) = None) \<and>
   (\<not> is_main ev \<and> s = run ev es (boot ev) \<and> connectors s \<noteq> [] \<longrightarrow>
      (\<exists>r0. connectors s = [Middleware r0])) \<and>
   (s = run ev es (boot ev) \<and> connectors s = [Middleware r0] \<longrightarrow>
      replies (step ev (Settled (Inl e)) s) =
        replies s @ map (\<lambda>r. (r, Response 500 failure_body)) (r0 # waiters s) \<and>
      exit_code (step ev (Settled (Inl e)) s) = None \<and>
      connectors (run ev [Settled (Inl e), Arrive r] s) = [Middleware r] \<and>
      connect_calls (run ev [Settled (Inl e), Arrive r] s) =
        connect_calls s @ [(or_else (MONGODB_URI ev) fallback_uri, connectDB_options)])"
proof -
  have 1: "\<exists>r0. connectors s = [Middleware r0]"
    if m: "\<not> is_main ev" and s: "s = run ev es (boot ev)" and c: "connectors s \<noteq> []"
  proof -
    note f = in_flight [OF s c]
    have "inv ev s" using s by (simp add: inv_reachable)
    with m f have "connectors s \<noteq> [Startup]" by (auto simp: inv_def)
    with f show ?thesis by auto
  qed
  have 2: "replies (step ev (Settled (Inl e)) s) =
        replies s @ map (\<lambda>r. (r, Response 500 failure_body)) (r0 # waiters s) \<and>
      exit_code (step ev (Settled (Inl e)) s) = None \<and>
      connectors (run ev [Settled (Inl e), Arrive r] s) = [Middleware r] \<and>
      connect_calls (run ev [Settled (Inl e), Arrive r] s) =
        connect_calls s @ [(or_else (MONGODB_URI ev) fallback_uri, connectDB_options)]"
    if s: "s = run ev es (boot ev)" and r0: "connectors s = [Middleware r0]"
  proof -
    have c: "connectors s \<noteq> []" using r0 by simp
    note f = in_flight [OF s c]
    have l: "is_main ev \<longrightarrow> listening s" using f r0 by simp
    let ?t = "step ev (Settled (Inl e)) s"
    have t: "?t = settle ev (Inl e) s" using f c by (simp add: step_Settled)
    have t1: "readyState ?t = 0" "connectors ?t = []" "connect_calls ?t = connect_calls s"
      by (simp_all add: t)
    have t2: "exit_code ?t = None" "listening ?t = listening s"
      "replies ?t = replies s @ map (\<lambda>r. (r, Response 500 failure_body)) (r0 # waiters s)"
      using f r0 unfolding t by (simp_all add: settle_Middleware verdict_def)
    have a: "step ev (Arrive r) ?t = ensureDbConnected_begin ev r ?t"
      using t2 l by (simp add: step_Arrive)
    show ?thesis using t1 t2 by (simp add: a begin_disconnected)
  qed
  have 3: "exit_code (run ev es' t) = None"
    if "exit_code t = None" "Startup \<notin> set (connectors t)"
    using that by (rule run_keeps_alive)
  have a1: "is_main ev \<and> NODE_ENV ev \<noteq> Some ''test'' \<longrightarrow>
      exit_code (step ev (Settled (Inl e)) (boot ev)) = Some 1 \<and>
      exit_code (server_v1_settled ev (Inl e) (server_v1_begin ev init)) = Some 1"
    using local_startup_fails [of ev e] server_v1_exits [of ev e] by blast
  have a2: "is_main ev \<and> NODE_ENV ev \<noteq> Some ''test'' \<and> listen_throws ev = Some err \<longrightarrow>
      exit_code (step ev (Settled (Inr c)) (boot ev)) = Some 1 \<and>
      \<not> listening (step ev (Settled (Inr c)) (boot ev)) \<and>
      exit_code (server_v1_settled ev (Inr c) (server_v1_begin ev init)) = Some 1 \<and>
      \<not> listening (server_v1_settled ev (Inr c) (server_v1_begin ev init))"
    using local_startup_listen_throws [of ev err c] server_v1_listen_throws [of ev err c]
    by blast
  have a3: "exit_code (snd (connectDB_finish (Inl e) t)) = exit_code t"
    and a4: "exit_code (ensureDbConnected_connected r (Inl e) t) = exit_code t"
    and a5: "exit_code (ensureDbConnected_waited r (Inl e) t) = exit_code t"
    by simp_all
  have a6: "exit_code t = None \<and> Startup \<notin> set (connectors t) \<longrightarrow>
      exit_code (run ev es' t) = None"
    using 3 by blast
  have a7: "listening (run ev es (boot ev)) \<longrightarrow> exit_code (run ev (es @ es') (boot ev)) = None"
    using listening_stays_alive [of ev es es'] by blast
  have a8: "\<not> is_main ev \<longrightarrow> exit_code (run ev es (boot ev)) = None"
    using serverless_never_exits [of ev es] by blast
  have a9: "\<not> is_main ev \<and> s = run ev es (boot ev) \<and> connectors s \<noteq> [] \<longrightarrow>
      (\<exists>r0. connectors s = [Middleware r0])"
    using 1 by blast
  have a10: "s = run ev es (boot ev) \<and> connectors s = [Middleware r0] \<longrightarrow>
      replies (step ev (Settled (Inl e)) s) =
        replies s @ map (\<lambda>r. (r, Response 500 failure_body)) (r0 # waiters s) \<and>
      exit_code (step ev (Settled (Inl e)) s) = None \<and>
      connectors (run ev [Settled (Inl e), Arrive r] s) = [Middleware r] \<and>
      connect_calls (run ev [Settled (Inl e), Arrive r] s) =
        connect_calls s @ [(or_else (MONGODB_URI ev) fallback_uri, connectDB_options)]"
    using 2 by (intro impI) (elim conjE)
  show ?thesis
    by (intro conjI) (rule a1 a2 a3 a4 a5 a6 a7 a8 a9 a10)+
qed

theorem fatal_only_at_startup_witness:
  "is_main local_env \<and> NODE_ENV local_env \<noteq> Some ''test'' \<and>
   exit_code (step local_env (Settled (Inl refused)) (boot local_env)) = Some 1 \<and>
   is_main bad_port_env \<and> NODE_ENV bad_port_env \<noteq> Some ''test'' \<and>
   listen_throws bad_port_env = Some bad_port \<and>
   exit_code (step bad_port_env (Settled (Inr cluster)) (boot bad_port_env)) = Some 1 \<and>
   listening (run local_env [Settled (Inr cluster)] (boot local_env)) \<and>
   connectors (run local_env [Settled (Inr cluster), Dropped, Arrive 0] (boot local_env)) =
     [Middleware 0] \<and>
   Startup \<notin> set (connectors
     (run local_env [Settled (Inr cluster), Dropped, Arrive 0] (boot local_env))) \<and>
   exit_code (run local_env [Settled (Inr cluster), Dropped, Arrive 0] (boot local_env)) = None \<and>
   replies (step local_env (Settled (Inl refused))
     (run local_env [Settled (Inr cluster), Dropped, Arrive 0] (boot local_env))) =
     [(0, Response 500 failure_body)] \<and>
   exit_code (run local_env [Settled (Inl refused)]
     (run local_env [Settled (Inr cluster), Dropped, Arrive 0] (boot local_env))) = None \<and>
   exit_code (run local_env
     ([Settled (Inr cluster)] @ [Dropped, Arrive 0, Settled (Inl refused)])
     (boot local_env)) = None \<and>
   length (connect_calls (run local_env [Settled (Inl refused), Arrive 1]
     (run local_env [Settled (Inr cluster), Dropped, Arrive 0] (boot local_env)))) = 3 \<and>
   \<not> is_main serverless_env \<and>
   connectors (run serverless_env [Arrive 0] (boot serverless_env)) = [Middleware 0] \<and>
   replies (step serverless_env (Settled (Inl refused))
     (run serverless_env [Arrive 0] (boot serverless_env))) =
     [(0, Response 500 failure_body)] \<and>
   exit_code (step serverless_env (Settled (Inl refused))
     (run serverless_env [Arrive 0] (boot serverless_env))) = None \<and>
   length (connect_calls (run serverless_env [Settled (Inl refused), Arrive 1]
     (run serverless_env [Arrive 0] (boot serverless_env)))) = 2"
proof -
  have l: "is_main local_env" "NODE_ENV local_env \<noteq> Some ''test''"
    "listen_throws local_env = None"
    by (simp_all add: local_env_def)
  have p: "is_main bad_port_env" "NODE_ENV bad_port_env \<noteq> Some ''test''"
    "listen_throws bad_port_env = Some bad_port"
    by (simp_all add: bad_port_env_def)
  have m: "\<not> is_main serverless_env" by (simp add: serverless_env_def)
  have ls: "listening (run local_env [Settled (Inr cluster)] (boot local_env))"
    using local_startup_succeeds [OF l, of cluster] by simp
  let ?L = "run local_env [Settled (Inr cluster), Dropped, Arrive 0] (boot local_env)"
  let ?s = "run serverless_env [Arrive 0] (boot serverless_env)"
  note L = sample_reconnect [of 0]
  have Ls: "Startup \<notin> set (connectors ?L)" using L(5) by (simp del: run_Cons run_Nil)
  have c: "connectors ?s = [Middleware 0]" "waiters ?s = []" "replies ?s = []"
    "length (connect_calls ?s) = 1"
    by (simp_all add: sample_first_request)
  note a = fatal_only_at_startup [of local_env refused bad_port cluster ?L 1
      "[Settled (Inl refused)]" "[Settled (Inr cluster)]" ?L 0]
  note a' = fatal_only_at_startup [of local_env refused bad_port cluster ?L 1
      "[Dropped, Arrive 0, Settled (Inl refused)]" "[Settled (Inr cluster)]" ?L 0]
  note a'' = fatal_only_at_startup [of local_env refused bad_port cluster ?L 1
      "[]" "[Settled (Inr cluster), Dropped, Arrive 0]" ?L 0]
  note b = fatal_only_at_startup [of bad_port_env refused bad_port cluster ?L 1
      "[]" "[]" ?L 0]
  note d = fatal_only_at_startup [of serverless_env refused bad_port cluster ?s 1
      "[]" "[Arrive 0]" ?s 0]
  from a l have 1: "exit_code (step local_env (Settled (Inl refused)) (boot local_env)) = Some 1"
    by blast
  from b p have 2:
    "exit_code (step bad_port_env (Settled (Inr cluster)) (boot bad_port_env)) = Some 1"
    by blast
  from a L(1) Ls have 3: "exit_code (run local_env [Settled (Inl refused)] ?L) = None"
    by blast
  from a' ls have 4: "exit_code (run local_env
     ([Settled (Inr cluster)] @ [Dropped, Arrive 0, Settled (Inl refused)])
     (boot local_env)) = None"
    by blast
  from a'' L(5) have 5: "replies (step local_env (Settled (Inl refused)) ?L) =
        replies ?L @ map (\<lambda>r. (r, Response 500 failure_body)) (0 # waiters ?L)"
    and 6: "connect_calls (run local_env [Settled (Inl refused), Arrive 1] ?L) =
        connect_calls ?L @
          [(or_else (MONGODB_URI local_env) fallback_uri, connectDB_options)]"
    by blast+
  from d c(1) have 7: "replies (step serverless_env (Settled (Inl refused)) ?s) =
        replies ?s @ map (\<lambda>r. (r, Response 500 failure_body)) (0 # waiters ?s)"
    and 8: "exit_code (step serverless_env (Settled (Inl refused)) ?s) = None"
    and 9: "connect_calls (run serverless_env [Settled (Inl refused), Arrive 1] ?s) =
        connect_calls ?s @
          [(or_else (MONGODB_URI serverless_env) fallback_uri, connectDB_options)]"
    by blast+
  have 10: "replies (step local_env (Settled (Inl refused)) ?L) = [(0, Response 500 failure_body)]"
    unfolding 5 using L by (simp del: run_Cons run_Nil)
  have 11: "length (connect_calls (run local_env [Settled (Inl refused), Arrive 1] ?L)) = 3"
    unfolding 6 using L by (simp del: run_Cons run_Nil)
  have 12: "replies (step serverless_env (Settled (Inl refused)) ?s) =
     [(0, Response 500 failure_body)]"
    unfolding 7 using c by (simp del: run_Cons run_Nil)
  have 13: "length (connect_calls (run serverless_env [Settled (Inl refused), Arrive 1] ?s)) = 2"
    unfolding 9 using c by (simp del: run_Cons run_Nil)
  from l(1,2) p m ls L(1,5) Ls c(1) 1 2 3 4 8 10 11 12 13 show ?thesis
    by blast
qed

text \<open>
  C5, as stated, fails on the health-check handler of the server with the connection
  middleware: its body holds \<^verbatim>\<open>status\<close>, \<^verbatim>\<open>message\<close> and
  \<^verbatim>\<open>timestamp\<close> and nothing about the database, the uptime or the memory.
\<close>

theorem health_check_plain:
  "json_field (body_of (health_check ''2025-01-01T00:00:00.000Z'')) ''dbConnected'' = None \<and>
   json_field (body_of (health_check ''2025-01-01T00:00:00.000Z'')) ''database'' = None \<and>
   json_field (body_of (health_check ''2025-01-01T00:00:00.000Z'')) ''connected'' = None \<and>
   json_field (body_of (health_check ''2025-01-01T00:00:00.000Z'')) ''readyState'' = None \<and>
   json_field (body_of (health_check ''2025-01-01T00:00:00.000Z'')) ''uptime'' = None \<and>
   json_field (body_of (health_check ''2025-01-01T00:00:00.000Z'')) ''memory'' = None \<and>
   health_check ''2025-01-01T00:00:00.000Z'' =
     Response 200
       (JObj [(''status'', JStr ''OK''),
              (''message'', JStr ''Campus Recruitment API is running''),
              (''timestamp'', JStr ''2025-01-01T00:00:00.000Z'')])"
  by (simp add: health_check_def body_of_def json_field_def)

text \<open>
  C5, amended. The enhanced health-check handler replies with status 200 and a body that
  reports \<^verbatim>\<open>status\<close>, \<^verbatim>\<open>uptime\<close>, \<^verbatim>\<open>memory\<close> and, under
  \<^verbatim>\<open>database\<close>, the readiness integer and the boolean \<^verbatim>\<open>connected\<close>,
  which is true exactly when the readiness integer is 1: false before any connect (0)
  and while connecting (2), true once an attempt has succeeded. The handler of the
  server with the connection middleware reports \<^verbatim>\<open>status\<close>,
  \<^verbatim>\<open>message\<close> and \<^verbatim>\<open>timestamp\<close> only.
\<close>

theorem health_check_enhanced_reports:
  "(\<exists>body database.
      health_check_enhanced ev h = Response 200 body \<and>
      json_field body ''status'' = Some (JStr ''OK'') \<and>
      json_field body ''database'' = Some database \<and>
      json_field database ''connected'' = Some (JBool (h_readyState h = 1)) \<and>
      json_field database ''readyState'' = Some (JNum (int (h_readyState h))) \<and>
      json_field body ''uptime'' = Some (h_uptime h) \<and>
      json_field body ''memory'' = Some (h_memory h)) \<and>
   db_connected (health_check_enhanced ev (h\<lparr>h_readyState := readyState init\<rparr>)) =
     Some (JBool False) \<and>
   db_connected (health_check_enhanced ev
     (h\<lparr>h_readyState := readyState (mongoose_connect uri options s)\<rparr>)) =
     Some (JBool False) \<and>
   db_connected (health_check_enhanced ev
     (h\<lparr>h_readyState := readyState (mongoose_settle (Inr c) s)\<rparr>)) =
     Some (JBool True) \<and>
   health_check timestamp =
     Response 200
       (JObj [(''status'', JStr ''OK''),
              (''message'', JStr ''Campus Recruitment API is running''),
              (''timestamp'', JStr timestamp)])"
  by (simp add: health_check_enhanced_def health_check_def json_field_def db_connected_def
      body_of_def mongoose_connect_def Let_def)

end
